theory Spec2Isabelle
  imports Complex_Main
begin

section \<open>Data model\<close>

text \<open>
  The source is Python. Its \<^verbatim>\<open>float\<close> prices, sizes, percentages and clock readings are
  modelled as \<^typ>\<open>real\<close> (exact arithmetic, no rounding), its \<^verbatim>\<open>int\<close> as \<^typ>\<open>int\<close>, its
  \<^verbatim>\<open>str\<close> as \<^typ>\<open>string\<close>.

  A position is the dict built by \<^verbatim>\<open>TradeManager.get_open_positions\<close> (keys
  \<^verbatim>\<open>symbol, side, size, entry_price, pnl, sl_price, tp_price\<close>, always present). The code
  also reads three keys that this constructor never writes: \<^verbatim>\<open>stop_loss\<close>,
  \<^verbatim>\<open>last_price\<close> and \<^verbatim>\<open>positionSide\<close>; they are optional fields, \<open>None\<close> standing for
  an absent key.
\<close>

record position =
  pos_symbol :: string
  pos_side :: string
  pos_size :: real
  pos_entry_price :: real
  pos_pnl :: real
  pos_sl_price :: "real option"
  pos_tp_price :: "real option"
  pos_stop_loss :: "real option"
  pos_last_price :: "real option"
  pos_positionSide :: "string option"

text \<open>
  The action dict returned by \<^verbatim>\<open>Strategy.execute\<close>, keyed by its \<^verbatim>\<open>'action'\<close> entry;
  \<open>NoAction\<close> is the empty dict \<^verbatim>\<open>{}\<close>. The \<^verbatim>\<open>'comment'\<close> entry is free text that is only
  printed, and is left out.
\<close>

datatype action =
    NoAction
  | PlaceOrder string string string
  | PlaceOrderWithTp string string string real
  | ClosePosition string
  | PartialClose string real real
  | CloseAllPositions

text \<open>
  The context dict handed to a strategy. \<^verbatim>\<open>'symbol'\<close> is a string (\<open>''''\<close> when absent:
  the code only tests its truth value), \<^verbatim>\<open>'position'\<close> and \<^verbatim>\<open>'timestamp'\<close> may be absent,
  \<^verbatim>\<open>'stop_loss_hit'\<close> defaults to \<^verbatim>\<open>False\<close>. \<^verbatim>\<open>'trailing_stop_hit'\<close> and
  \<^verbatim>\<open>'partial_profit'\<close> are the two entries a strategy writes into the dict.
\<close>

record ctx =
  ctx_symbol :: string
  ctx_position :: "position option"
  ctx_stop_loss_hit :: bool
  ctx_timestamp :: "real option"
  ctx_trailing_stop_hit :: bool
  ctx_partial_profit :: "action option"

section \<open>Python values and strings\<close>

text \<open>
  The exceptions the modelled code can raise. Every handler in the source is
  \<^verbatim>\<open>except Exception\<close>, so a handler never tells them apart; \<open>ExchangeError\<close> stands
  for whatever a gateway call raises.
\<close>

datatype py_error =
  KeyError | TypeError | ZeroDivisionError | AttributeError | RuntimeError | ExchangeError

text \<open>
  \<^verbatim>\<open>str.lower()\<close> and \<^verbatim>\<open>str.upper()\<close> on ASCII letters (other bytes are left as they
  are), and the substring test \<^verbatim>\<open>sub in s\<close>.
\<close>

definition lower_char :: "char \<Rightarrow> char" where
  "lower_char c =
     (case map_of (zip ''ABCDEFGHIJKLMNOPQRSTUVWXYZ'' ''abcdefghijklmnopqrstuvwxyz'') c of
        Some d \<Rightarrow> d | None \<Rightarrow> c)"

definition upper_char :: "char \<Rightarrow> char" where
  "upper_char c =
     (case map_of (zip ''abcdefghijklmnopqrstuvwxyz'' ''ABCDEFGHIJKLMNOPQRSTUVWXYZ'') c of
        Some d \<Rightarrow> d | None \<Rightarrow> c)"

definition lower :: "string \<Rightarrow> string" where
  "lower s = map lower_char s"

definition upper :: "string \<Rightarrow> string" where
  "upper s = map upper_char s"

fun starts_with :: "string \<Rightarrow> string \<Rightarrow> bool" where
  "starts_with [] s = True"
| "starts_with (c # cs) [] = False"
| "starts_with (c # cs) (d # ds) = (c = d \<and> starts_with cs ds)"

fun contains :: "string \<Rightarrow> string \<Rightarrow> bool" where
  "contains sub [] = (sub = [])"
| "contains sub (c # cs) = (starts_with sub (c # cs) \<or> contains sub cs)"

text \<open>
  Python floats with their special values, where the code can produce them:
  \<^verbatim>\<open>float('inf')\<close> is stored as a watermark by the trailing-stop strategy.
\<close>

datatype pyfloat = Fin real | PosInf | NegInf | NaN

fun fmul :: "pyfloat \<Rightarrow> real \<Rightarrow> pyfloat" where
  "fmul (Fin a) r = Fin (a * r)"
| "fmul PosInf r = (if 0 < r then PosInf else if r < 0 then NegInf else NaN)"
| "fmul NegInf r = (if 0 < r then NegInf else if r < 0 then PosInf else NaN)"
| "fmul NaN r = NaN"

fun fsub :: "pyfloat \<Rightarrow> pyfloat \<Rightarrow> pyfloat" where
  "fsub (Fin a) (Fin b) = Fin (a - b)"
| "fsub NaN y = NaN"
| "fsub x NaN = NaN"
| "fsub PosInf PosInf = NaN"
| "fsub NegInf NegInf = NaN"
| "fsub PosInf y = PosInf"
| "fsub NegInf y = NegInf"
| "fsub (Fin a) PosInf = NegInf"
| "fsub (Fin a) NegInf = PosInf"

text \<open>\<^verbatim>\<open>max(current_price, h)\<close>: Python returns \<open>h\<close> only when \<open>h > current_price\<close>.\<close>

fun fmax :: "real \<Rightarrow> pyfloat \<Rightarrow> pyfloat" where
  "fmax c (Fin h) = Fin (max c h)"
| "fmax c PosInf = PosInf"
| "fmax c NegInf = Fin c"
| "fmax c NaN = Fin c"

fun truthy :: "pyfloat \<Rightarrow> bool" where
  "truthy (Fin a) = (a \<noteq> 0)"
| "truthy x = True"

fun fle :: "real \<Rightarrow> pyfloat \<Rightarrow> bool" where
  "fle c (Fin t) = (c \<le> t)"
| "fle c PosInf = True"
| "fle c NegInf = False"
| "fle c NaN = False"

fun fge :: "real \<Rightarrow> pyfloat \<Rightarrow> bool" where
  "fge c (Fin t) = (c \<ge> t)"
| "fge c PosInf = False"
| "fge c NegInf = True"
| "fge c NaN = False"

section \<open>The exchange gateway\<close>

text \<open>
  \<^verbatim>\<open>exchange.exchange\<close> is a remote service: a call returns or raises, and what it does
  may depend on everything done before. The model keeps a log of the calls made so far
  (the latest last) and takes the service as a record of functions that map the log at
  the time of a call and the call's arguments to its outcome.

  Values of an order's \<^verbatim>\<open>params\<close> dict: \<open>PStrOfNum x\<close> is the string \<^verbatim>\<open>str(x)\<close> of a
  number. A params dict is the list of its items in insertion order.
\<close>

datatype 'a reply = Raised | Returned 'a

datatype pval = PBool bool | PNum real | PStr string | PStrOfNum real

type_synonym params = "(string \<times> pval) list"

definition has_key :: "params \<Rightarrow> string \<Rightarrow> bool" where
  "has_key ps k \<longleftrightarrow> map_of ps k \<noteq> None"

record raw_position =
  rp_symbol :: string
  rp_side :: "string option"
  rp_contracts :: "real option"
  rp_entryPrice :: "real option"
  rp_unrealizedPnl :: "real option"

record raw_order =
  ro_id :: string
  ro_symbol :: string
  ro_type :: string
  ro_price :: "real option"
  ro_stopPrice :: "real option"
  ro_triggerPrice :: "real option"
  ro_info_stopPrice :: "real option"
  ro_info_takeProfitPrice :: "real option"

datatype call =
    TimeTime
  | FetchTicker string
  | FetchPositions "string list option"
  | FetchOpenOrders string
  | CreateMarketBuyOrder string "real option" params
  | CreateMarketSellOrder string "real option" params
  | CreateLimitBuyOrder string "real option" real params
  | CreateLimitSellOrder string "real option" real params
  | CreateOrder string string string real "real option" params
  | FapiPrivatePostOrder params
  | CancelOrder string string
  | SetLeverage int string
  | FapiPrivateGetPositionSideDual

text \<open>
  \<open>gw_fetch_ticker\<close> gives \<^verbatim>\<open>ticker['last']\<close>; \<open>gw_submit\<close> answers every
  order-creating call (\<open>None\<close> is a falsy return value); \<open>gw_cancel_order\<close> gives the
  truth value of the result; \<open>gw_position_side_dual\<close> gives the
  \<^verbatim>\<open>'dualSidePosition'\<close> entry of the result, if it has one; \<open>gw_time\<close> is
  \<^verbatim>\<open>time.time()\<close>.
\<close>

record gateway =
  gw_time :: "call list \<Rightarrow> real"
  gw_fetch_ticker :: "call list \<Rightarrow> string \<Rightarrow> real reply"
  gw_fetch_positions :: "call list \<Rightarrow> string list option \<Rightarrow> raw_position list reply"
  gw_fetch_open_orders :: "call list \<Rightarrow> string \<Rightarrow> raw_order list reply"
  gw_submit :: "call list \<Rightarrow> call \<Rightarrow> raw_order option reply"
  gw_cancel_order :: "call list \<Rightarrow> string \<Rightarrow> string \<Rightarrow> bool reply"
  gw_set_leverage :: "call list \<Rightarrow> int \<Rightarrow> string \<Rightarrow> unit reply"
  gw_position_side_dual :: "call list \<Rightarrow> bool option reply"

section \<open>ThreeStrikeStrategy\<close>

record sl_event =
  ev_symbol :: string
  ev_timestamp :: real
  ev_side :: string
  ev_size :: real

record three_strike =
  strike_limit :: int
  time_window :: real
  stop_loss_events :: "sl_event list"

text \<open>
  \<^verbatim>\<open>ThreeStrikeStrategy.should_execute\<close>. The method reads the clock twice:
  \<open>t_default\<close> is the reading taken for the default of
  \<^verbatim>\<open>context.get('timestamp', time.time())\<close>, \<open>current_time\<close> the later reading used for
  pruning. It returns the verdict and the strategy with its pruned event list.
\<close>

definition record_event :: "ctx \<Rightarrow> real \<Rightarrow> sl_event" where
  "record_event ctx t_default =
     \<lparr> ev_symbol = ctx_symbol ctx,
       ev_timestamp = (case ctx_timestamp ctx of Some t \<Rightarrow> t | None \<Rightarrow> t_default),
       ev_side = (case ctx_position ctx of Some p \<Rightarrow> pos_side p | None \<Rightarrow> ''''),
       ev_size = (case ctx_position ctx of Some p \<Rightarrow> pos_size p | None \<Rightarrow> 0) \<rparr>"

definition in_window :: "three_strike \<Rightarrow> real \<Rightarrow> sl_event \<Rightarrow> bool" where
  "in_window s current_time event \<longleftrightarrow> current_time - ev_timestamp event \<le> time_window s"

definition three_strike_should_execute ::
  "three_strike \<Rightarrow> ctx \<Rightarrow> real \<Rightarrow> real \<Rightarrow> bool \<times> three_strike" where
  "three_strike_should_execute s ctx t_default current_time =
     (let appended =
            (if ctx_stop_loss_hit ctx
             then stop_loss_events s @ [record_event ctx t_default]
             else stop_loss_events s);
          kept = filter (in_window s current_time) appended
      in (strike_limit s \<le> int (length kept), s\<lparr>stop_loss_events := kept\<rparr>))"

definition three_strike_execute :: "three_strike \<Rightarrow> ctx \<Rightarrow> action" where
  "three_strike_execute s ctx = CloseAllPositions"

text \<open>
  A sequence of \<^verbatim>\<open>should_execute\<close> calls on one strategy object: each call comes with
  its context and its two clock readings. \<open>three_strike_calls\<close> is the strategy after
  the calls, \<open>recorded\<close> lists every stop-loss event the calls appended, pruned or not.
\<close>

record ts_call =
  call_ctx :: ctx
  call_default :: real
  call_now :: real

fun three_strike_calls :: "three_strike \<Rightarrow> ts_call list \<Rightarrow> three_strike" where
  "three_strike_calls s [] = s"
| "three_strike_calls s (c # cs) =
     three_strike_calls
       (snd (three_strike_should_execute s (call_ctx c) (call_default c) (call_now c))) cs"

fun recorded :: "ts_call list \<Rightarrow> sl_event list" where
  "recorded [] = []"
| "recorded (c # cs) =
     (if ctx_stop_loss_hit (call_ctx c)
      then record_event (call_ctx c) (call_default c) # recorded cs
      else recorded cs)"

section \<open>MarketReversalStrategy\<close>

record stopped_position =
  sp_side :: string
  sp_exit_price :: real
  sp_timestamp :: "real option"

record market_reversal =
  reversal_percentage :: real
  stopped_positions :: "string \<rightharpoonup> stopped_position"

text \<open>
  \<open>should_execute\<close> returns its verdict (or the exception that leaves the method: the
  \<^verbatim>\<open>position['last_price']\<close> subscript is outside every handler), the strategy and the
  log. A ticker failure and a division by zero are caught inside and end in
  \<^verbatim>\<open>return False\<close>.
\<close>

definition market_reversal_should_execute ::
  "gateway \<Rightarrow> call list \<Rightarrow> market_reversal \<Rightarrow> ctx
     \<Rightarrow> (py_error + bool) \<times> market_reversal \<times> call list" where
  "market_reversal_should_execute gw calls s c =
     (case ctx_position c of
        None \<Rightarrow> (Inr False, s, calls)
      | Some position \<Rightarrow>
          if ctx_symbol c = [] then (Inr False, s, calls)
          else if ctx_stop_loss_hit c then
            (case pos_last_price position of
               None \<Rightarrow> (Inl KeyError, s, calls)
             | Some exit_price \<Rightarrow>
                 (Inr False,
                  s\<lparr>stopped_positions := (stopped_positions s)(ctx_symbol c \<mapsto>
                       \<lparr> sp_side = pos_side position, sp_exit_price = exit_price,
                         sp_timestamp = ctx_timestamp c \<rparr>)\<rparr>,
                  calls))
          else
            (case stopped_positions s (ctx_symbol c) of
               None \<Rightarrow> (Inr False, s, calls)
             | Some stopped_data \<Rightarrow>
                 (case gw_fetch_ticker gw calls (ctx_symbol c) of
                    Raised \<Rightarrow> (Inr False, s, calls @ [FetchTicker (ctx_symbol c)])
                  | Returned current_price \<Rightarrow>
                      (Inr (if sp_side stopped_data = ''long''
                            then sp_exit_price stopped_data \<noteq> 0 \<and>
                                 reversal_percentage s
                                   \<le> ((current_price / sp_exit_price stopped_data) - 1) * 100
                            else current_price \<noteq> 0 \<and>
                                 reversal_percentage s
                                   \<le> ((sp_exit_price stopped_data / current_price) - 1) * 100),
                       s, calls @ [FetchTicker (ctx_symbol c)]))))"

definition market_reversal_execute :: "market_reversal \<Rightarrow> ctx \<Rightarrow> action \<times> market_reversal" where
  "market_reversal_execute s c =
     (case stopped_positions s (ctx_symbol c) of
        None \<Rightarrow> (NoAction, s)
      | Some stopped_data \<Rightarrow>
          if ctx_symbol c = [] then (NoAction, s)
          else
            (PlaceOrder (ctx_symbol c)
               (if sp_side stopped_data = ''long'' then ''sell'' else ''buy'') ''market'',
             s\<lparr>stopped_positions := (stopped_positions s)(ctx_symbol c := None)\<rparr>))"

section \<open>TrailingStopWithPartialProfits\<close>

record position_tracking =
  pt_entry_price :: real
  pt_side :: string
  pt_highest_price :: pyfloat
  pt_lowest_price :: real
  pt_profits_taken :: "real list"

text \<open>A profit level is the pair of its \<^verbatim>\<open>'percentage'\<close> and \<^verbatim>\<open>'amount_percentage'\<close>.\<close>

record trailing =
  trailing_distance_pct :: real
  profit_levels :: "(real \<times> real) list"
  position_data :: "string \<rightharpoonup> position_tracking"

definition update_position_tracking :: "trailing \<Rightarrow> string \<Rightarrow> position \<Rightarrow> real \<Rightarrow> trailing" where
  "update_position_tracking s symbol position current_price =
     (case position_data s symbol of
        None \<Rightarrow>
          s\<lparr>position_data := (position_data s)(symbol \<mapsto>
             \<lparr> pt_entry_price = pos_entry_price position,
               pt_side = pos_side position,
               pt_highest_price = (if pos_side position = ''long'' then Fin current_price else PosInf),
               pt_lowest_price = (if pos_side position = ''short'' then current_price else 0),
               pt_profits_taken = [] \<rparr>)\<rparr>
      | Some d \<Rightarrow>
          if pos_side position = ''long''
          then s\<lparr>position_data := (position_data s)(symbol \<mapsto>
                 d\<lparr>pt_highest_price := fmax current_price (pt_highest_price d)\<rparr>)\<rparr>
          else s\<lparr>position_data := (position_data s)(symbol \<mapsto>
                 d\<lparr>pt_lowest_price := min current_price (pt_lowest_price d)\<rparr>)\<rparr>)"

definition calculate_trailing_stop :: "trailing \<Rightarrow> string \<Rightarrow> pyfloat option" where
  "calculate_trailing_stop s symbol =
     (case position_data s symbol of
        None \<Rightarrow> None
      | Some d \<Rightarrow>
          if pt_side d = ''long''
          then Some (fsub (pt_highest_price d)
                          (fmul (pt_highest_price d) (trailing_distance_pct s / 100)))
          else Some (Fin (pt_lowest_price d
                          + pt_lowest_price d * (trailing_distance_pct s / 100))))"

text \<open>
  The loop of \<open>check_partial_profits\<close> over the profit levels: the first level that is
  reached and not yet taken.
\<close>

fun first_untaken_level :: "real \<Rightarrow> real list \<Rightarrow> (real \<times> real) list \<Rightarrow> (real \<times> real) option" where
  "first_untaken_level profit_pct profits_taken [] = None"
| "first_untaken_level profit_pct profits_taken ((target_pct, amount_pct) # levels) =
     (if target_pct \<le> profit_pct \<and> target_pct \<notin> set profits_taken
      then Some (target_pct, amount_pct)
      else first_untaken_level profit_pct profits_taken levels)"

definition profit_percentage :: "position_tracking \<Rightarrow> real \<Rightarrow> py_error + real" where
  "profit_percentage d current_price =
     (if pt_side d = ''long''
      then (if pt_entry_price d = 0 then Inl ZeroDivisionError
            else Inr (((current_price / pt_entry_price d) - 1) * 100))
      else (if current_price = 0 then Inl ZeroDivisionError
            else Inr (((pt_entry_price d / current_price) - 1) * 100)))"

definition check_partial_profits ::
  "trailing \<Rightarrow> string \<Rightarrow> position \<Rightarrow> real \<Rightarrow> (py_error + action option) \<times> trailing" where
  "check_partial_profits s symbol position current_price =
     (case position_data s symbol of
        None \<Rightarrow> (Inr None, s)
      | Some d \<Rightarrow>
          (case profit_percentage d current_price of
             Inl e \<Rightarrow> (Inl e, s)
           | Inr profit_pct \<Rightarrow>
               (case first_untaken_level profit_pct (pt_profits_taken d) (profit_levels s) of
                  None \<Rightarrow> (Inr None, s)
                | Some (target_pct, amount_pct) \<Rightarrow>
                    (Inr (Some (PartialClose symbol (pos_size position * (amount_pct / 100)) target_pct)),
                     s\<lparr>position_data := (position_data s)(symbol \<mapsto>
                          d\<lparr>pt_profits_taken := pt_profits_taken d @ [target_pct]\<rparr>)\<rparr>))))"

text \<open>
  \<open>should_execute\<close>: the verdict, the context (the method writes
  \<^verbatim>\<open>'trailing_stop_hit'\<close> or \<^verbatim>\<open>'partial_profit'\<close> into it), the strategy and the log. The
  whole body is inside one handler that returns \<^verbatim>\<open>False\<close>; what was written to the
  tracking data before the exception stays written.
\<close>

definition trailing_stop_crossed :: "position_tracking \<Rightarrow> real \<Rightarrow> pyfloat \<Rightarrow> bool" where
  "trailing_stop_crossed d current_price trailing_stop_price \<longleftrightarrow>
     (pt_side d = ''long'' \<and> fle current_price trailing_stop_price) \<or>
     (pt_side d = ''short'' \<and> fge current_price trailing_stop_price)"

definition trailing_should_execute ::
  "gateway \<Rightarrow> call list \<Rightarrow> trailing \<Rightarrow> ctx \<Rightarrow> bool \<times> ctx \<times> trailing \<times> call list" where
  "trailing_should_execute gw calls s c =
     (case ctx_position c of
        None \<Rightarrow> (False, c, s, calls)
      | Some position \<Rightarrow>
          if ctx_symbol c = [] then (False, c, s, calls)
          else
            (case gw_fetch_ticker gw calls (ctx_symbol c) of
               Raised \<Rightarrow> (False, c, s, calls @ [FetchTicker (ctx_symbol c)])
             | Returned current_price \<Rightarrow>
                 (let calls1 = calls @ [FetchTicker (ctx_symbol c)];
                      s1 = update_position_tracking s (ctx_symbol c) position current_price;
                      trailing_stop_price = calculate_trailing_stop s1 (ctx_symbol c)
                  in if (case trailing_stop_price of
                           None \<Rightarrow> False
                         | Some t \<Rightarrow>
                             truthy t \<and>
                             (case position_data s1 (ctx_symbol c) of
                                None \<Rightarrow> False
                              | Some d \<Rightarrow> trailing_stop_crossed d current_price t))
                     then (True, c\<lparr>ctx_trailing_stop_hit := True\<rparr>, s1, calls1)
                     else
                       (case check_partial_profits s1 (ctx_symbol c) position current_price of
                          (Inl e, s2) \<Rightarrow> (False, c, s2, calls1)
                        | (Inr None, s2) \<Rightarrow> (False, c, s2, calls1)
                        | (Inr (Some partial_profit), s2) \<Rightarrow>
                            (True, c\<lparr>ctx_partial_profit := Some partial_profit\<rparr>, s2, calls1)))))"

definition trailing_execute :: "trailing \<Rightarrow> ctx \<Rightarrow> action \<times> trailing" where
  "trailing_execute s c =
     (if ctx_trailing_stop_hit c
      then (ClosePosition (ctx_symbol c),
            (if ctx_symbol c \<noteq> [] then s\<lparr>position_data := (position_data s)(ctx_symbol c := None)\<rparr>
             else s))
      else (case ctx_partial_profit c of
              Some partial_profit \<Rightarrow> (partial_profit, s)
            | None \<Rightarrow> (NoAction, s)))"

section \<open>StopAndReverseStrategy\<close>

record stop_and_reverse =
  tp_percentage :: real

definition stop_and_reverse_should_execute :: "stop_and_reverse \<Rightarrow> ctx \<Rightarrow> bool" where
  "stop_and_reverse_should_execute s c =
     (case ctx_position c of
        None \<Rightarrow> False
      | Some position \<Rightarrow> if ctx_symbol c = [] then False else ctx_stop_loss_hit c)"

text \<open>
  \<open>execute\<close>: an empty side, an absent \<^verbatim>\<open>last_price\<close> or a \<^verbatim>\<open>last_price\<close> of zero are
  all falsy and end in the empty action.
\<close>

definition stop_and_reverse_execute :: "stop_and_reverse \<Rightarrow> ctx \<Rightarrow> action" where
  "stop_and_reverse_execute s c =
     (case ctx_position c of
        None \<Rightarrow> NoAction
      | Some position \<Rightarrow>
          if ctx_symbol c = [] then NoAction
          else
            (case pos_last_price position of
               None \<Rightarrow> NoAction
             | Some exit_price \<Rightarrow>
                 if pos_side position = [] \<or> exit_price = 0 then NoAction
                 else
                   (let new_side = (if pos_side position = ''long'' then ''sell'' else ''buy'');
                        tp_price = (if new_side = ''sell''
                                    then exit_price * (1 - (tp_percentage s / 100))
                                    else exit_price * (1 + (tp_percentage s / 100)))
                    in PlaceOrderWithTp (ctx_symbol c) new_side ''market'' tp_price)))"

section \<open>TradeManager\<close>

text \<open>
  The strategy objects live in a store indexed by address: the one
  \<^verbatim>\<open>ThreeStrikeStrategy\<close> object of \<^verbatim>\<open>default_strategies\<close> is also an element of every
  list in \<^verbatim>\<open>position_strategies\<close>, so a change made through one list is seen through
  the others. \<^verbatim>\<open>position_strategies\<close> is a dict in insertion order. \<open>tm_calls\<close> is the
  log of gateway calls. \<^verbatim>\<open>time.sleep\<close> and \<^verbatim>\<open>print\<close> change nothing here and are left
  out.
\<close>

datatype strategy =
    MarketReversalStrategy market_reversal
  | ThreeStrikeStrategy three_strike
  | TrailingStopWithPartialProfits trailing
  | StopAndReverseStrategy stop_and_reverse

record trade_manager =
  tm_calls :: "call list"
  tm_orders :: "raw_order list"
  tm_position_strategies :: "(string \<times> nat list) list"
  tm_default_strategies :: "nat list"
  tm_objects :: "nat \<Rightarrow> strategy"

definition gateway_call :: "call \<Rightarrow> trade_manager \<Rightarrow> trade_manager" where
  "gateway_call c st = st\<lparr>tm_calls := tm_calls st @ [c]\<rparr>"

text \<open>\<^verbatim>\<open>d[k] = v\<close> on a dict kept in insertion order.\<close>

fun dict_set :: "('k \<times> 'v) list \<Rightarrow> 'k \<Rightarrow> 'v \<Rightarrow> ('k \<times> 'v) list" where
  "dict_set [] k v = [(k, v)]"
| "dict_set ((k', v') # rest) k v =
     (if k' = k then (k, v) # rest else (k', v') # dict_set rest k v)"

text \<open>Truth value of an optional number, and \<^verbatim>\<open>a or b\<close> on such values.\<close>

definition py_truthy :: "real option \<Rightarrow> bool" where
  "py_truthy v = (case v of None \<Rightarrow> False | Some x \<Rightarrow> x \<noteq> 0)"

definition py_or :: "real option \<Rightarrow> real option \<Rightarrow> real option" where
  "py_or a b = (if py_truthy a then a else b)"

subsection \<open>Strategy dispatch\<close>

text \<open>
  \<open>strat.should_execute(context)\<close> and \<open>strat.execute(context)\<close> by the class of the
  object. ThreeStrikeStrategy reads the clock once, and once more (first) when the
  context has \<open>stop_loss_hit\<close>.
\<close>

definition strategy_should_execute ::
  "gateway \<Rightarrow> call list \<Rightarrow> strategy \<Rightarrow> ctx
     \<Rightarrow> (py_error + bool) \<times> ctx \<times> strategy \<times> call list" where
  "strategy_should_execute gw calls strat c =
     (case strat of
        MarketReversalStrategy s \<Rightarrow>
          (case market_reversal_should_execute gw calls s c of
             (r, s', calls') \<Rightarrow> (r, c, MarketReversalStrategy s', calls'))
      | ThreeStrikeStrategy s \<Rightarrow>
          (if ctx_stop_loss_hit c
           then (case three_strike_should_execute s c
                        (gw_time gw calls) (gw_time gw (calls @ [TimeTime])) of
                   (v, s') \<Rightarrow> (Inr v, c, ThreeStrikeStrategy s', calls @ [TimeTime, TimeTime]))
           else (case three_strike_should_execute s c (gw_time gw calls) (gw_time gw calls) of
                   (v, s') \<Rightarrow> (Inr v, c, ThreeStrikeStrategy s', calls @ [TimeTime])))
      | TrailingStopWithPartialProfits s \<Rightarrow>
          (case trailing_should_execute gw calls s c of
             (v, c', s', calls') \<Rightarrow> (Inr v, c', TrailingStopWithPartialProfits s', calls'))
      | StopAndReverseStrategy s \<Rightarrow>
          (Inr (stop_and_reverse_should_execute s c), c, strat, calls))"

definition strategy_execute :: "strategy \<Rightarrow> ctx \<Rightarrow> action \<times> strategy" where
  "strategy_execute strat c =
     (case strat of
        MarketReversalStrategy s \<Rightarrow>
          (case market_reversal_execute s c of (a, s') \<Rightarrow> (a, MarketReversalStrategy s'))
      | ThreeStrikeStrategy s \<Rightarrow> (three_strike_execute s c, strat)
      | TrailingStopWithPartialProfits s \<Rightarrow>
          (case trailing_execute s c of (a, s') \<Rightarrow> (a, TrailingStopWithPartialProfits s'))
      | StopAndReverseStrategy s \<Rightarrow> (stop_and_reverse_execute s c, strat))"

subsection \<open>Position mode, leverage, position snapshot\<close>

definition get_position_mode :: "gateway \<Rightarrow> trade_manager \<Rightarrow> bool \<times> trade_manager" where
  "get_position_mode gw st =
     ((case gw_position_side_dual gw (tm_calls st) of
         Raised \<Rightarrow> False
       | Returned None \<Rightarrow> False
       | Returned (Some dualSidePosition) \<Rightarrow> dualSidePosition),
      gateway_call FapiPrivateGetPositionSideDual st)"

definition set_leverage :: "gateway \<Rightarrow> trade_manager \<Rightarrow> string \<Rightarrow> int \<Rightarrow> bool \<times> trade_manager" where
  "set_leverage gw st symbol leverage =
     ((case gw_set_leverage gw (tm_calls st) leverage symbol of
         Raised \<Rightarrow> False | Returned u \<Rightarrow> True),
      gateway_call (SetLeverage leverage symbol) st)"

text \<open>The scan of a symbol's open orders for its stop-loss and take-profit prices.\<close>

fun scan_orders :: "raw_order list \<Rightarrow> real option \<times> real option \<Rightarrow> real option \<times> real option" where
  "scan_orders [] found = found"
| "scan_orders (order # rest) (sl_price, tp_price) =
     (let order_type = lower (ro_type order)
      in if (contains ''stop'' order_type \<and> \<not> contains ''profit'' order_type)
            \<or> order_type = ''stop_loss''
         then scan_orders rest
                (py_or (py_or (ro_stopPrice order) (ro_triggerPrice order))
                       (ro_info_stopPrice order),
                 tp_price)
         else if contains ''take_profit'' order_type \<or> order_type = ''take_profit''
         then scan_orders rest
                (sl_price,
                 py_or (py_or (py_or (ro_stopPrice order) (ro_triggerPrice order))
                              (ro_price order))
                       (ro_info_takeProfitPrice order))
         else scan_orders rest (sl_price, tp_price))"

definition number_or_zero :: "real option \<Rightarrow> real" where
  "number_or_zero v = (case v of None \<Rightarrow> 0 | Some x \<Rightarrow> x)"

text \<open>
  The loop of \<open>get_open_positions\<close> over the fetched positions. A failing
  \<^verbatim>\<open>fetch_open_orders\<close> leaves the loop by the exception.
\<close>

fun process_positions ::
  "gateway \<Rightarrow> call list \<Rightarrow> raw_position list \<Rightarrow> position list reply \<times> call list" where
  "process_positions gw calls [] = (Returned [], calls)"
| "process_positions gw calls (pos # rest) =
     (if number_or_zero (rp_contracts pos) = 0 then process_positions gw calls rest
      else
        (case gw_fetch_open_orders gw calls (rp_symbol pos) of
           Raised \<Rightarrow> (Raised, calls @ [FetchOpenOrders (rp_symbol pos)])
         | Returned open_orders \<Rightarrow>
             (case scan_orders open_orders (None, None) of
                (sl_price, tp_price) \<Rightarrow>
                  (case process_positions gw (calls @ [FetchOpenOrders (rp_symbol pos)]) rest of
                     (Raised, calls') \<Rightarrow> (Raised, calls')
                   | (Returned processed, calls') \<Rightarrow>
                       (Returned
                          (\<lparr> pos_symbol = rp_symbol pos,
                             pos_side = (case rp_side pos of None \<Rightarrow> [] | Some sd \<Rightarrow> sd),
                             pos_size = number_or_zero (rp_contracts pos),
                             pos_entry_price = number_or_zero (rp_entryPrice pos),
                             pos_pnl = number_or_zero (rp_unrealizedPnl pos),
                             pos_sl_price = sl_price,
                             pos_tp_price = tp_price,
                             pos_stop_loss = None,
                             pos_last_price = None,
                             pos_positionSide = None \<rparr> # processed),
                        calls')))))"

definition get_open_positions :: "gateway \<Rightarrow> trade_manager \<Rightarrow> position list \<times> trade_manager" where
  "get_open_positions gw st =
     (case gw_fetch_positions gw (tm_calls st) None of
        Raised \<Rightarrow> ([], gateway_call (FetchPositions None) st)
      | Returned positions \<Rightarrow>
          (case process_positions gw (tm_calls st @ [FetchPositions None]) positions of
             (Raised, calls') \<Rightarrow> ([], st\<lparr>tm_calls := calls'\<rparr>)
           | (Returned processed_positions, calls') \<Rightarrow>
               (processed_positions, st\<lparr>tm_calls := calls'\<rparr>)))"

definition get_position ::
  "gateway \<Rightarrow> trade_manager \<Rightarrow> string \<Rightarrow> position option \<times> trade_manager" where
  "get_position gw st symbol =
     (case get_open_positions gw st of
        (positions, st') \<Rightarrow> (find (\<lambda>position. pos_symbol position = symbol) positions, st'))"

subsection \<open>Conditional orders\<close>

text \<open>\<^verbatim>\<open>symbol.split(':')[0].replace('/', '')\<close>\<close>

definition binance_symbol :: "string \<Rightarrow> string" where
  "binance_symbol symbol = filter (\<lambda>ch. ch \<noteq> CHR ''/'') (takeWhile (\<lambda>ch. ch \<noteq> CHR '':'') symbol)"

definition conditional_params :: "bool \<Rightarrow> string \<Rightarrow> real \<Rightarrow> params" where
  "conditional_params is_hedge_mode side price =
     (let params = [(''stopPrice'', PNum price), (''reduceOnly'', PBool True),
                    (''closePosition'', PStr ''true'')]
      in if is_hedge_mode
         then dict_set params ''positionSide'' (PStr (if side = ''long'' then ''LONG'' else ''SHORT''))
         else params)"

definition direct_params ::
  "bool \<Rightarrow> params \<Rightarrow> string \<Rightarrow> string \<Rightarrow> string \<Rightarrow> real \<Rightarrow> real \<Rightarrow> params" where
  "direct_params is_hedge_mode params symbol order_side type_token price amount =
     (let direct = [(''symbol'', PStr (binance_symbol symbol)),
                    (''side'', PStr (upper order_side)),
                    (''type'', PStr type_token),
                    (''stopPrice'', PStrOfNum price),
                    (''quantity'', PStrOfNum amount),
                    (''reduceOnly'', PStr ''true''),
                    (''timeInForce'', PStr ''GTC'')]
      in case map_of params ''positionSide'' of
           Some v \<Rightarrow> if is_hedge_mode then dict_set direct ''positionSide'' v else direct
         | None \<Rightarrow> direct)"

text \<open>
  \<^verbatim>\<open>_place_stop_loss\<close>: the four nested \<^verbatim>\<open>try\<close> blocks. An attempt succeeds when the call
  does not raise, whatever it returns.
\<close>

definition place_stop_loss ::
  "gateway \<Rightarrow> trade_manager \<Rightarrow> string \<Rightarrow> position \<Rightarrow> real \<Rightarrow> bool \<times> trade_manager" where
  "place_stop_loss gw st symbol position price =
     (let side = pos_side position;
          amount = pos_size position;
          sl_side = (if side = ''long'' then ''sell'' else ''buy'')
      in case get_position_mode gw st of
           (is_hedge_mode, st0) \<Rightarrow>
      (let params = conditional_params is_hedge_mode side price;
           attempt1 = CreateOrder symbol ''market'' sl_side amount None params
       in case gw_submit gw (tm_calls st0) attempt1 of
            Returned order \<Rightarrow> (True, gateway_call attempt1 st0)
          | Raised \<Rightarrow>
      (let st1 = gateway_call attempt1 st0;
           attempt2 = CreateOrder symbol ''STOP_MARKET'' sl_side amount None params
       in case gw_submit gw (tm_calls st1) attempt2 of
            Returned order \<Rightarrow> (True, gateway_call attempt2 st1)
          | Raised \<Rightarrow>
      (let st2 = gateway_call attempt2 st1;
           attempt3 = CreateOrder symbol ''STOP'' sl_side amount None params
       in case gw_submit gw (tm_calls st2) attempt3 of
            Returned order \<Rightarrow> (True, gateway_call attempt3 st2)
          | Raised \<Rightarrow>
      (let st3 = gateway_call attempt3 st2;
           attempt4 = FapiPrivatePostOrder
                        (direct_params is_hedge_mode params symbol sl_side ''STOP_MARKET'' price amount)
       in case gw_submit gw (tm_calls st3) attempt4 of
            Returned result \<Rightarrow> (True, gateway_call attempt4 st3)
          | Raised \<Rightarrow> (False, gateway_call attempt4 st3))))))"

text \<open>\<^verbatim>\<open>_place_take_profit\<close>: the third attempt carries the price as its limit price.\<close>

definition place_take_profit ::
  "gateway \<Rightarrow> trade_manager \<Rightarrow> string \<Rightarrow> position \<Rightarrow> real \<Rightarrow> bool \<times> trade_manager" where
  "place_take_profit gw st symbol position price =
     (let side = pos_side position;
          amount = pos_size position;
          tp_side = (if side = ''long'' then ''sell'' else ''buy'')
      in case get_position_mode gw st of
           (is_hedge_mode, st0) \<Rightarrow>
      (let params = conditional_params is_hedge_mode side price;
           attempt1 = CreateOrder symbol ''market'' tp_side amount None params
       in case gw_submit gw (tm_calls st0) attempt1 of
            Returned order \<Rightarrow> (True, gateway_call attempt1 st0)
          | Raised \<Rightarrow>
      (let st1 = gateway_call attempt1 st0;
           attempt2 = CreateOrder symbol ''TAKE_PROFIT_MARKET'' tp_side amount None params
       in case gw_submit gw (tm_calls st1) attempt2 of
            Returned order \<Rightarrow> (True, gateway_call attempt2 st1)
          | Raised \<Rightarrow>
      (let st2 = gateway_call attempt2 st1;
           attempt3 = CreateOrder symbol ''TAKE_PROFIT'' tp_side amount (Some price) params
       in case gw_submit gw (tm_calls st2) attempt3 of
            Returned order \<Rightarrow> (True, gateway_call attempt3 st2)
          | Raised \<Rightarrow>
      (let st3 = gateway_call attempt3 st2;
           attempt4 = FapiPrivatePostOrder
                        (direct_params is_hedge_mode params symbol tp_side ''TAKE_PROFIT_MARKET'' price amount)
       in case gw_submit gw (tm_calls st3) attempt4 of
            Returned result \<Rightarrow> (True, gateway_call attempt4 st3)
          | Raised \<Rightarrow> (False, gateway_call attempt4 st3))))))"

subsection \<open>Entry and exit orders\<close>

definition close_position :: "gateway \<Rightarrow> trade_manager \<Rightarrow> string \<Rightarrow> bool \<times> trade_manager" where
  "close_position gw st symbol =
     (case get_open_positions gw st of
        (positions, st1) \<Rightarrow>
     (case find (\<lambda>pos. pos_symbol pos = symbol) positions of
        None \<Rightarrow> (False, st1)
      | Some position \<Rightarrow>
     (case get_position_mode gw st1 of
        (is_hedge_mode, st2) \<Rightarrow>
     (let side = pos_side position;
          amount = pos_size position;
          close_side = (if side = ''long'' then ''sell'' else ''buy'');
          position_side = upper (case pos_positionSide position of None \<Rightarrow> [] | Some v \<Rightarrow> v);
          params = (if is_hedge_mode
                    then dict_set [] ''positionSide''
                           (PStr (if position_side = []
                                  then (if side = ''long'' then ''LONG'' else ''SHORT'')
                                  else position_side))
                    else dict_set [] ''reduceOnly'' (PBool True));
          order_call = (if close_side = ''buy''
                        then CreateMarketBuyOrder symbol (Some amount) params
                        else CreateMarketSellOrder symbol (Some amount) params)
      in case gw_submit gw (tm_calls st2) order_call of
           Raised \<Rightarrow> (False, gateway_call order_call st2)
         | Returned order \<Rightarrow> (True, gateway_call order_call st2)))))"

fun close_each :: "gateway \<Rightarrow> position list \<Rightarrow> bool \<Rightarrow> trade_manager \<Rightarrow> bool \<times> trade_manager" where
  "close_each gw [] success st = (success, st)"
| "close_each gw (position # rest) success st =
     (if pos_symbol position \<noteq> []
      then (case close_position gw st (pos_symbol position) of
              (result, st') \<Rightarrow> close_each gw rest (success \<and> result) st')
      else close_each gw rest success st)"

definition close_all_positions :: "gateway \<Rightarrow> trade_manager \<Rightarrow> bool \<times> trade_manager" where
  "close_all_positions gw st =
     (case get_open_positions gw st of
        (positions, st1) \<Rightarrow> close_each gw positions True st1)"

text \<open>
  The part of \<open>place_order\<close> that derives the stop-loss and take-profit prices from
  the position read back after the entry, and places them. Neither helper raises, and
  the result of neither is looked at.
\<close>

definition place_risk_orders ::
  "gateway \<Rightarrow> trade_manager \<Rightarrow> string \<Rightarrow> real option \<Rightarrow> real option \<Rightarrow> trade_manager" where
  "place_risk_orders gw st symbol stop_loss_pct take_profit_pct =
     (if py_truthy stop_loss_pct \<or> py_truthy take_profit_pct
      then
        (case get_position gw st symbol of
           (None, st1) \<Rightarrow> st1
         | (Some position, st1) \<Rightarrow>
             (let entry_price = pos_entry_price position;
                  sl_price =
                    (case stop_loss_pct of
                       None \<Rightarrow> None
                     | Some pct \<Rightarrow>
                         if pct = 0 then None
                         else Some (if pos_side position = ''long''
                                    then entry_price * (1 - pct / 100)
                                    else entry_price * (1 + pct / 100)));
                  tp_price =
                    (case take_profit_pct of
                       None \<Rightarrow> None
                     | Some pct \<Rightarrow>
                         if pct = 0 then None
                         else Some (if pos_side position = ''long''
                                    then entry_price * (1 + pct / 100)
                                    else entry_price * (1 - pct / 100)));
                  st2 = (case sl_price of
                           None \<Rightarrow> st1
                         | Some sl \<Rightarrow>
                             if sl = 0 then st1 else snd (place_stop_loss gw st1 symbol position sl))
              in case tp_price of
                   None \<Rightarrow> st2
                 | Some tp \<Rightarrow>
                     if tp = 0 then st2 else snd (place_take_profit gw st2 symbol position tp)))
      else st)"

text \<open>
  \<open>place_order\<close>. The amount is optional because \<open>place_order_with_tp\<close> passes its
  own default \<^verbatim>\<open>None\<close> on. The ticker's price is only the default of a
  \<^verbatim>\<open>position.get('entry_price', market_price)\<close> whose key is always present, so only the
  fetch itself matters.
\<close>

definition place_order ::
  "gateway \<Rightarrow> trade_manager \<Rightarrow> string \<Rightarrow> string \<Rightarrow> string \<Rightarrow> real option \<Rightarrow> real option
     \<Rightarrow> int option \<Rightarrow> real option \<Rightarrow> real option \<Rightarrow> nat list \<Rightarrow> bool
     \<Rightarrow> bool \<times> trade_manager" where
  "place_order gw st symbol side order_type amount price leverage stop_loss_pct take_profit_pct
       strategies reduce_only =
     (case get_position_mode gw
             (case leverage of None \<Rightarrow> st | Some l \<Rightarrow> snd (set_leverage gw st symbol l)) of
        (is_hedge_mode, st2) \<Rightarrow>
     (let needs_ticker = (\<not> py_truthy price \<or> lower order_type = ''market'')
      in if needs_ticker \<and> gw_fetch_ticker gw (tm_calls st2) symbol = Raised
         then (False, gateway_call (FetchTicker symbol) st2)
         else
     (let st3 = (if needs_ticker then gateway_call (FetchTicker symbol) st2 else st2);
          params0 = (if reduce_only then dict_set [] ''reduceOnly'' (PBool True) else []);
          params = (if is_hedge_mode
                    then dict_set params0 ''positionSide''
                           (PStr (if lower side = ''buy'' then ''LONG'' else ''SHORT''))
                    else params0)
      in if lower order_type \<noteq> ''market'' \<and> \<not> py_truthy price then (False, st3)
         else
     (let order_call =
            (if lower order_type = ''market''
             then (if lower side = ''buy''
                   then CreateMarketBuyOrder symbol amount params
                   else CreateMarketSellOrder symbol amount params)
             else (if lower side = ''buy''
                   then CreateLimitBuyOrder symbol amount (number_or_zero price) params
                   else CreateLimitSellOrder symbol amount (number_or_zero price) params))
      in case gw_submit gw (tm_calls st3) order_call of
           Raised \<Rightarrow> (False, gateway_call order_call st3)
         | Returned None \<Rightarrow> (False, gateway_call order_call st3)
         | Returned (Some order) \<Rightarrow>
             (let st4 = (gateway_call order_call st3)\<lparr>tm_orders := tm_orders st3 @ [order]\<rparr>;
                  st5 = place_risk_orders gw st4 symbol stop_loss_pct take_profit_pct
              in (True,
                  st5\<lparr>tm_position_strategies :=
                        dict_set (tm_position_strategies st5) symbol
                          (strategies @ tm_default_strategies st5)\<rparr>))))))"

text \<open>
  \<open>place_order_with_tp\<close> binds the return value of \<open>place_order\<close> to \<^verbatim>\<open>order\<close> and
  treats it as an order dict. \<open>order_value\<close> is what that variable can hold;
  \<open>id_not_in\<close> is the test \<^verbatim>\<open>'id' not in order\<close>, which raises on a bool.
  \<open>place_order_with_tp_rest\<close> is the method's code after the guard.
\<close>

datatype order_value = OBool bool | ODict raw_order

fun order_truthy :: "order_value \<Rightarrow> bool" where
  "order_truthy (OBool b) = b"
| "order_truthy (ODict d) = True"

fun id_not_in :: "order_value \<Rightarrow> py_error + bool" where
  "id_not_in (OBool b) = Inl TypeError"
| "id_not_in (ODict d) = Inr False"

definition place_order_with_tp_rest ::
  "gateway \<Rightarrow> trade_manager \<Rightarrow> string \<Rightarrow> real option \<Rightarrow> order_value
     \<Rightarrow> order_value option \<times> trade_manager" where
  "place_order_with_tp_rest gw st symbol take_profit order =
     (case gw_fetch_positions gw (tm_calls st) (Some [symbol]) of
        Raised \<Rightarrow> (None, gateway_call (FetchPositions (Some [symbol])) st)
      | Returned positions \<Rightarrow>
          (let st1 = gateway_call (FetchPositions (Some [symbol])) st
           in case find (\<lambda>p. number_or_zero (rp_contracts p) \<noteq> 0) positions of
                None \<Rightarrow> (Some order, st1)
              | Some position \<Rightarrow>
                  (case take_profit of
                     None \<Rightarrow> (Some order, st1)
                   | Some tp \<Rightarrow>
                       if tp = 0 then (Some order, st1)
                       else
                         (let position_side = lower (case rp_side position of None \<Rightarrow> [] | Some sd \<Rightarrow> sd);
                              position_size = \<bar>number_or_zero (rp_contracts position)\<bar>;
                              tp_side = (if position_side = ''long'' then ''sell'' else ''buy'');
                              tp_params = [(''stopPrice'', PNum tp), (''reduceOnly'', PBool True),
                                           (''closePosition'', PStr ''true'')];
                              tp_call = CreateOrder symbol ''market'' tp_side position_size None tp_params
                          in case gw_submit gw (tm_calls st1) tp_call of
                               Raised \<Rightarrow> (Some order, gateway_call tp_call st1)
                             | Returned tp_order \<Rightarrow> (Some order, gateway_call tp_call st1)))))"

definition place_order_with_tp ::
  "gateway \<Rightarrow> trade_manager \<Rightarrow> string \<Rightarrow> string \<Rightarrow> string \<Rightarrow> real option \<Rightarrow> real option
     \<Rightarrow> real option \<Rightarrow> order_value option \<times> trade_manager" where
  "place_order_with_tp gw st symbol side order_type amount price take_profit =
     (case place_order gw st symbol side order_type amount price None None None [] False of
        (placed, st1) \<Rightarrow>
          (let order = OBool placed
           in if \<not> order_truthy order then (None, st1)
              else case id_not_in order of
                     Inl e \<Rightarrow> (None, st1)
                   | Inr True \<Rightarrow> (None, st1)
                   | Inr False \<Rightarrow> place_order_with_tp_rest gw st1 symbol take_profit order))"

subsection \<open>Replacing a position's stop-loss and take-profit\<close>

text \<open>
  The cancel loop of \<open>set_position_sltp\<close>: one \<^verbatim>\<open>try\<close> around the whole loop, so the
  first cancellation that raises ends it.
\<close>

fun cancel_conditional_orders ::
  "gateway \<Rightarrow> string \<Rightarrow> raw_order list \<Rightarrow> trade_manager \<Rightarrow> trade_manager" where
  "cancel_conditional_orders gw symbol [] st = st"
| "cancel_conditional_orders gw symbol (order # rest) st =
     (let order_type = lower (ro_type order)
      in if contains ''stop'' order_type \<or> contains ''take_profit'' order_type
         then (case gw_cancel_order gw (tm_calls st) (ro_id order) symbol of
                 Raised \<Rightarrow> gateway_call (CancelOrder (ro_id order) symbol) st
               | Returned r \<Rightarrow>
                   cancel_conditional_orders gw symbol rest
                     (gateway_call (CancelOrder (ro_id order) symbol) st))
         else cancel_conditional_orders gw symbol rest st)"

definition cancel_existing :: "gateway \<Rightarrow> string \<Rightarrow> trade_manager \<Rightarrow> trade_manager" where
  "cancel_existing gw symbol st =
     (case gw_fetch_open_orders gw (tm_calls st) symbol of
        Raised \<Rightarrow> gateway_call (FetchOpenOrders symbol) st
      | Returned open_orders \<Rightarrow>
          cancel_conditional_orders gw symbol open_orders (gateway_call (FetchOpenOrders symbol) st))"

definition sl_order_call :: "string \<Rightarrow> string \<Rightarrow> real \<Rightarrow> real \<Rightarrow> call" where
  "sl_order_call symbol side position_size stop_loss_price =
     CreateOrder symbol ''stop_market'' (if side = ''long'' then ''sell'' else ''buy'')
       \<bar>position_size\<bar> None
       [(''stopPrice'', PNum stop_loss_price), (''reduceOnly'', PBool True),
        (''triggerPrice'', PNum stop_loss_price), (''stopLossPrice'', PNum stop_loss_price),
        (''type'', PStr ''stop_market'')]"

definition tp_order_call :: "string \<Rightarrow> string \<Rightarrow> real \<Rightarrow> real \<Rightarrow> call" where
  "tp_order_call symbol side position_size take_profit_price =
     CreateOrder symbol ''take_profit_market'' (if side = ''long'' then ''sell'' else ''buy'')
       \<bar>position_size\<bar> None
       [(''stopPrice'', PNum take_profit_price), (''reduceOnly'', PBool True),
        (''triggerPrice'', PNum take_profit_price), (''takeProfitPrice'', PNum take_profit_price),
        (''type'', PStr ''take_profit_market'')]"

text \<open>
  A single \<^verbatim>\<open>create_order\<close> inside a \<^verbatim>\<open>try\<close> whose handler only prints: the call is
  made, and whether it raised changes nothing.
\<close>

definition submit_once :: "gateway \<Rightarrow> call \<Rightarrow> trade_manager \<Rightarrow> trade_manager" where
  "submit_once gw order_call st =
     (case gw_submit gw (tm_calls st) order_call of
        Raised \<Rightarrow> gateway_call order_call st
      | Returned order \<Rightarrow> gateway_call order_call st)"

definition set_position_sltp ::
  "gateway \<Rightarrow> trade_manager \<Rightarrow> string \<Rightarrow> real option \<Rightarrow> real option \<Rightarrow> bool \<times> trade_manager" where
  "set_position_sltp gw st symbol stop_loss_price take_profit_price =
     (case gw_fetch_positions gw (tm_calls st) (Some [symbol]) of
        Raised \<Rightarrow> (False, gateway_call (FetchPositions (Some [symbol])) st)
      | Returned [] \<Rightarrow> (False, gateway_call (FetchPositions (Some [symbol])) st)
      | Returned (position # others) \<Rightarrow>
          (let st0 = gateway_call (FetchPositions (Some [symbol])) st;
               position_size = number_or_zero (rp_contracts position)
           in if position_size = 0 then (False, st0)
              else
                (let side = (case rp_side position of
                               Some sd \<Rightarrow> lower sd
                             | None \<Rightarrow> if 0 < position_size then ''long'' else ''short'');
                     st1 = cancel_existing gw symbol st0;
                     st2 = (case stop_loss_price of
                              None \<Rightarrow> st1
                            | Some sl \<Rightarrow> submit_once gw (sl_order_call symbol side position_size sl) st1);
                     st3 = (case take_profit_price of
                              None \<Rightarrow> st2
                            | Some tp \<Rightarrow> submit_once gw (tp_order_call symbol side position_size tp) st2)
                 in (True, st3))))"

subsection \<open>Stop-loss detection and the strategy driver\<close>

text \<open>
  The loop of \<open>check_stop_loss_hit\<close> over \<^verbatim>\<open>default_strategies\<close>. It is outside every
  handler: an exception from a strategy leaves the method.
\<close>

fun notify_default_strategies ::
  "gateway \<Rightarrow> ctx \<Rightarrow> nat list \<Rightarrow> trade_manager \<Rightarrow> py_error option \<times> trade_manager" where
  "notify_default_strategies gw c [] st = (None, st)"
| "notify_default_strategies gw c (r # rs) st =
     (case strategy_should_execute gw (tm_calls st) (tm_objects st r) c of
        (Inl e, c1, strat1, calls1) \<Rightarrow>
          (Some e, st\<lparr>tm_calls := calls1, tm_objects := (tm_objects st)(r := strat1)\<rparr>)
      | (Inr fired, c1, strat1, calls1) \<Rightarrow>
          (if fired
           then (case strategy_execute strat1 c1 of
                   (result, strat2) \<Rightarrow>
                     (if result = CloseAllPositions
                      then notify_default_strategies gw c1 rs
                             (snd (close_all_positions gw
                                (st\<lparr>tm_calls := calls1, tm_objects := (tm_objects st)(r := strat2)\<rparr>)))
                      else notify_default_strategies gw c1 rs
                             (st\<lparr>tm_calls := calls1, tm_objects := (tm_objects st)(r := strat2)\<rparr>)))
           else notify_default_strategies gw c1 rs
                  (st\<lparr>tm_calls := calls1, tm_objects := (tm_objects st)(r := strat1)\<rparr>)))"

definition check_stop_loss_hit ::
  "gateway \<Rightarrow> trade_manager \<Rightarrow> string \<Rightarrow> position \<Rightarrow> real \<Rightarrow> (py_error + bool) \<times> trade_manager" where
  "check_stop_loss_hit gw st symbol position current_price =
     (let side = pos_side position;
          stop_loss = number_or_zero (pos_stop_loss position)
      in if stop_loss = 0 \<or> stop_loss \<le> 0 then (Inr False, st)
         else if (side = ''long'' \<and> current_price \<le> stop_loss)
                 \<or> (side = ''short'' \<and> current_price \<ge> stop_loss)
         then (case notify_default_strategies gw
                      \<lparr> ctx_symbol = symbol, ctx_position = Some position,
                        ctx_stop_loss_hit = True,
                        ctx_timestamp = Some (gw_time gw (tm_calls st)),
                        ctx_trailing_stop_hit = False, ctx_partial_profit = None \<rparr>
                      (tm_default_strategies st) (gateway_call TimeTime st) of
                 (None, st') \<Rightarrow> (Inr True, st')
               | (Some e, st') \<Rightarrow> (Inl e, st'))
         else (Inr False, st))"

text \<open>
  The \<^verbatim>\<open>if/elif\<close> chain of \<open>check_strategies\<close> that turns a strategy's action into
  executor calls. \<^verbatim>\<open>TradeManager\<close> has no attribute \<^verbatim>\<open>close_partial\<close>, so the
  \<^verbatim>\<open>hasattr\<close> guard of the \<open>partial_close\<close> branch is false; there is no branch for
  \<open>place_order_with_tp\<close>.
\<close>

definition route_action :: "gateway \<Rightarrow> trade_manager \<Rightarrow> position \<Rightarrow> action \<Rightarrow> trade_manager" where
  "route_action gw st position result =
     (case result of
        NoAction \<Rightarrow> st
      | PlaceOrder symbol side order_type \<Rightarrow>
          snd (place_order gw st symbol side order_type (Some (pos_size position))
                 None None None None [] False)
      | ClosePosition symbol \<Rightarrow> snd (close_position gw st symbol)
      | PartialClose symbol amount profit_pct \<Rightarrow> st
      | CloseAllPositions \<Rightarrow> snd (close_all_positions gw st)
      | PlaceOrderWithTp symbol side order_type take_profit \<Rightarrow> st)"

text \<open>The inner loop of \<open>check_strategies\<close> over one symbol's strategies.\<close>

fun run_strategies ::
  "gateway \<Rightarrow> position \<Rightarrow> ctx \<Rightarrow> nat list \<Rightarrow> trade_manager \<Rightarrow> py_error option \<times> trade_manager" where
  "run_strategies gw position c [] st = (None, st)"
| "run_strategies gw position c (r # rs) st =
     (case strategy_should_execute gw (tm_calls st) (tm_objects st r) c of
        (Inl e, c1, strat1, calls1) \<Rightarrow>
          (Some e, st\<lparr>tm_calls := calls1, tm_objects := (tm_objects st)(r := strat1)\<rparr>)
      | (Inr fired, c1, strat1, calls1) \<Rightarrow>
          (if fired
           then (case strategy_execute strat1 c1 of
                   (result, strat2) \<Rightarrow>
                     run_strategies gw position c1 rs
                       (route_action gw
                          (st\<lparr>tm_calls := calls1, tm_objects := (tm_objects st)(r := strat2)\<rparr>)
                          position result))
           else run_strategies gw position c1 rs
                  (st\<lparr>tm_calls := calls1, tm_objects := (tm_objects st)(r := strat1)\<rparr>)))"

text \<open>
  The body of the outer loop for one symbol: everything is inside a handler that only
  prints, so an exception ends the work on this symbol and nothing else.
\<close>

definition check_symbol :: "gateway \<Rightarrow> string \<Rightarrow> nat list \<Rightarrow> trade_manager \<Rightarrow> trade_manager" where
  "check_symbol gw symbol strategies st =
     (case get_position gw st symbol of
        (None, st1) \<Rightarrow> st1
      | (Some position, st1) \<Rightarrow>
          snd (run_strategies gw position
                 \<lparr> ctx_symbol = symbol, ctx_position = Some position,
                   ctx_stop_loss_hit = False,
                   ctx_timestamp = Some (gw_time gw (tm_calls st1)),
                   ctx_trailing_stop_hit = False, ctx_partial_profit = None \<rparr>
                 strategies (gateway_call TimeTime st1)))"

text \<open>
  The outer loop iterates the live dict: a key is visited with the list stored under it
  at that moment, and Python raises \<^verbatim>\<open>RuntimeError\<close> when the dict has changed size
  since the loop began. \<open>n\<close> is the size at the start, \<open>keys\<close> the keys still to visit.
\<close>

fun check_symbols ::
  "gateway \<Rightarrow> nat \<Rightarrow> string list \<Rightarrow> trade_manager \<Rightarrow> py_error option \<times> trade_manager" where
  "check_symbols gw n [] st =
     (if length (tm_position_strategies st) \<noteq> n then (Some RuntimeError, st) else (None, st))"
| "check_symbols gw n (symbol # keys) st =
     (if length (tm_position_strategies st) \<noteq> n then (Some RuntimeError, st)
      else check_symbols gw n keys
             (check_symbol gw symbol
                (case map_of (tm_position_strategies st) symbol of
                   None \<Rightarrow> [] | Some strategies \<Rightarrow> strategies)
                st))"

definition check_strategies :: "gateway \<Rightarrow> trade_manager \<Rightarrow> py_error option \<times> trade_manager" where
  "check_strategies gw st =
     check_symbols gw (length (tm_position_strategies st))
       (map fst (tm_position_strategies st)) st"

section \<open>Notions used in the statements\<close>

text \<open>
  The orders \<open>set_position_sltp\<close> looks for (a lower-cased type token that contains
  \<open>stop\<close> or \<open>take_profit\<close>); the cancellation calls for a list of orders, in order;
  the open orders a fetch returns (none when it raises); and whether the \<open>i\<close>-th
  cancellation of a list of orders raises, when it is made after the \<open>i\<close>
  cancellations before it, starting at the log \<open>base\<close>.
\<close>

definition is_conditional :: "raw_order \<Rightarrow> bool" where
  "is_conditional order \<longleftrightarrow>
     contains ''stop'' (lower (ro_type order)) \<or> contains ''take_profit'' (lower (ro_type order))"

definition cancel_calls :: "string \<Rightarrow> raw_order list \<Rightarrow> call list" where
  "cancel_calls symbol orders = map (\<lambda>order. CancelOrder (ro_id order) symbol) orders"

definition fetched_orders :: "gateway \<Rightarrow> call list \<Rightarrow> string \<Rightarrow> raw_order list" where
  "fetched_orders gw calls symbol =
     (case gw_fetch_open_orders gw calls symbol of Raised \<Rightarrow> [] | Returned open_orders \<Rightarrow> open_orders)"

definition cancellation_raises ::
  "gateway \<Rightarrow> string \<Rightarrow> call list \<Rightarrow> raw_order list \<Rightarrow> nat \<Rightarrow> bool" where
  "cancellation_raises gw symbol base orders i \<longleftrightarrow>
     gw_cancel_order gw (base @ take i (cancel_calls symbol orders)) (ro_id (orders ! i)) symbol
       = Raised"

section \<open>Example inputs\<close>

text \<open>Concrete values used where a property is evaluated at an input.\<close>

definition example_position :: "string \<Rightarrow> string \<Rightarrow> position" where
  "example_position symb sd =
     \<lparr> pos_symbol = symb, pos_side = sd, pos_size = 1, pos_entry_price = 100, pos_pnl = 0,
       pos_sl_price = None, pos_tp_price = None,
       pos_stop_loss = None, pos_last_price = None, pos_positionSide = None \<rparr>"

definition plain_ctx :: "string \<Rightarrow> ctx" where
  "plain_ctx symb =
     \<lparr> ctx_symbol = symb, ctx_position = Some (example_position symb ''long''),
       ctx_stop_loss_hit = False, ctx_timestamp = None,
       ctx_trailing_stop_hit = False, ctx_partial_profit = None \<rparr>"

definition hit_call :: "string \<Rightarrow> real \<Rightarrow> ts_call" where
  "hit_call symb t =
     \<lparr> call_ctx = (plain_ctx symb)\<lparr> ctx_stop_loss_hit := True, ctx_timestamp := Some t \<rparr>,
       call_default = t, call_now = t \<rparr>"

definition default_three_strike :: three_strike where
  "default_three_strike = \<lparr> strike_limit = 3, time_window = 4 * 60 * 60, stop_loss_events = [] \<rparr>"

text \<open>
  \<^verbatim>\<open>TradeManager.__init__\<close>: no orders, no bound strategies, and one default strategy, a
  \<^verbatim>\<open>ThreeStrikeStrategy()\<close> with its default parameters, at address 0.
\<close>

definition new_trade_manager :: trade_manager where
  "new_trade_manager =
     \<lparr> tm_calls = [], tm_orders = [], tm_position_strategies = [],
       tm_default_strategies = [0],
       tm_objects = (\<lambda>r. ThreeStrikeStrategy default_three_strike) \<rparr>"

text \<open>
  A gateway on which every call raises, except that it has no positions and no open
  orders; the examples override single entries of it.
\<close>

definition quiet_gateway :: gateway where
  "quiet_gateway =
     \<lparr> gw_time = (\<lambda>calls. 0),
       gw_fetch_ticker = (\<lambda>calls symbol. Raised),
       gw_fetch_positions = (\<lambda>calls symbols. Returned []),
       gw_fetch_open_orders = (\<lambda>calls symbol. Returned []),
       gw_submit = (\<lambda>calls c. Raised),
       gw_cancel_order = (\<lambda>calls order_id symbol. Raised),
       gw_set_leverage = (\<lambda>calls leverage symbol. Raised),
       gw_position_side_dual = (\<lambda>calls. Raised) \<rparr>"

definition example_raw_position :: "string \<Rightarrow> string \<Rightarrow> raw_position" where
  "example_raw_position symb sd =
     \<lparr> rp_symbol = symb, rp_side = Some sd, rp_contracts = Some 1,
       rp_entryPrice = Some 100, rp_unrealizedPnl = Some 0 \<rparr>"

definition example_order :: "string \<Rightarrow> string \<Rightarrow> string \<Rightarrow> raw_order" where
  "example_order order_id symb type_token =
     \<lparr> ro_id = order_id, ro_symbol = symb, ro_type = type_token, ro_price = None,
       ro_stopPrice = Some 95, ro_triggerPrice = None,
       ro_info_stopPrice = None, ro_info_takeProfitPrice = None \<rparr>"

text \<open>
  A trailing-stop strategy with the default parameters that tracks a long position
  entered at 100 whose price has been as high as 110, no profit taken yet.
\<close>

definition example_trailing :: "string \<Rightarrow> trailing" where
  "example_trailing symb =
     \<lparr> trailing_distance_pct = 1,
       profit_levels = [(5, 20), (10, 30), (20, 50)],
       position_data = [symb \<mapsto>
         \<lparr> pt_entry_price = 100, pt_side = ''long'', pt_highest_price = Fin 110,
           pt_lowest_price = 0, pt_profits_taken = [] \<rparr>] \<rparr>"

text \<open>
  A gateway with one long position and three open orders, two of them conditional, on
  which every submission and every cancellation raises.
\<close>

definition sltp_gateway :: gateway where
  "sltp_gateway =
     quiet_gateway
       \<lparr> gw_fetch_positions := \<lambda>calls symbols. Returned [example_raw_position ''BTC'' ''long''],
         gw_fetch_open_orders := \<lambda>calls symbol.
            Returned [example_order ''1'' ''BTC'' ''stop_market'',
                      example_order ''2'' ''BTC'' ''limit'',
                      example_order ''3'' ''BTC'' ''TAKE_PROFIT_MARKET''] \<rparr>"

text \<open>
  A gateway with one long position and four open orders, three of them conditional, on
  which the cancellation of order 1 succeeds and every other cancellation, like every
  submission, raises.
\<close>

definition partly_cancelling_gateway :: gateway where
  "partly_cancelling_gateway =
     quiet_gateway
       \<lparr> gw_fetch_positions := \<lambda>calls symbols. Returned [example_raw_position ''BTC'' ''long''],
         gw_fetch_open_orders := \<lambda>calls symbol.
            Returned [example_order ''1'' ''BTC'' ''stop_market'',
                      example_order ''2'' ''BTC'' ''limit'',
                      example_order ''3'' ''BTC'' ''TAKE_PROFIT_MARKET'',
                      example_order ''4'' ''BTC'' ''stop''],
         gw_cancel_order := \<lambda>calls order_id symbol.
            if order_id = ''1'' then Returned True else Raised \<rparr>"

text \<open>A gateway in hedge mode that accepts every submission.\<close>

definition hedge_gateway :: gateway where
  "hedge_gateway =
     quiet_gateway
       \<lparr> gw_submit := \<lambda>calls c. Returned None,
         gw_position_side_dual := \<lambda>calls. Returned (Some True) \<rparr>"

text \<open>
  A trade manager whose symbol \<open>BTC\<close> is bound to a fresh trailing-stop strategy (at
  address 1) followed by the default strategy, as \<open>place_order\<close> leaves it when called
  with \<open>strategies = [TrailingStopWithPartialProfits()]\<close>; and a gateway with one long
  position entered at 100 whose ticker reads 106.
\<close>

definition bound_trailing_manager :: trade_manager where
  "bound_trailing_manager =
     new_trade_manager
       \<lparr> tm_position_strategies := [(''BTC'', [1, 0])],
         tm_objects := (\<lambda>r. if r = 1
                           then TrailingStopWithPartialProfits
                                  \<lparr> trailing_distance_pct = 1,
                                    profit_levels = [(5, 20), (10, 30), (20, 50)],
                                    position_data = Map.empty \<rparr>
                           else ThreeStrikeStrategy default_three_strike) \<rparr>"

definition rising_gateway :: gateway where
  "rising_gateway =
     quiet_gateway
       \<lparr> gw_fetch_positions := \<lambda>calls symbols. Returned [example_raw_position ''BTC'' ''long''],
         gw_fetch_ticker := \<lambda>calls symbol. Returned 106,
         gw_submit := \<lambda>calls c. Returned None \<rparr>"

text \<open>A gateway in one-way mode whose ticker reads 100 and which accepts every submission.\<close>

definition accepting_gateway :: gateway where
  "accepting_gateway =
     quiet_gateway
       \<lparr> gw_fetch_ticker := \<lambda>calls symbol. Returned 100,
         gw_submit := \<lambda>calls c. Returned (Some (example_order ''7'' ''BTC'' ''market'')) \<rparr>"

section \<open>Properties of ThreeStrikeStrategy\<close>

lemma three_strike_params_kept:
  "strike_limit (snd (three_strike_should_execute s ctx d t)) = strike_limit s \<and>
   time_window (snd (three_strike_should_execute s ctx d t)) = time_window s"
  by (simp add: three_strike_should_execute_def Let_def)

lemma three_strike_calls_append:
  "three_strike_calls s (cs @ ds) = three_strike_calls (three_strike_calls s cs) ds"
  by (induction cs arbitrary: s) simp_all

lemma recorded_append: "recorded (cs @ ds) = recorded cs @ recorded ds"
  by (induction cs) simp_all

lemma three_strike_calls_params:
  "strike_limit (three_strike_calls s cs) = strike_limit s \<and>
   time_window (three_strike_calls s cs) = time_window s"
  by (induction cs arbitrary: s) (simp_all add: three_strike_params_kept)

lemma in_window_earlier:
  "t \<le> t' \<Longrightarrow> in_window s t' e \<Longrightarrow> in_window s t e"
  by (simp add: in_window_def)

lemma filter_in_window_twice:
  "t \<le> t' \<Longrightarrow> filter (in_window s t') (filter (in_window s t) xs) = filter (in_window s t') xs"
  by (induction xs) (auto dest: in_window_earlier)

text \<open>
  With a clock that never runs backwards, pruning loses nothing that a later call would
  still count: after a non-empty run of calls the stored list is exactly the recorded
  events that are inside the window at the last reading.
\<close>

lemma three_strike_calls_events:
  assumes "sorted (map call_now (cs @ [c]))"
    and "stop_loss_events s = []"
  shows "stop_loss_events (three_strike_calls s (cs @ [c])) =
         filter (in_window s (call_now c)) (recorded (cs @ [c]))"
  using assms
proof (induction cs arbitrary: c rule: rev_induct)
  case Nil
  then show ?case
    by (simp add: three_strike_should_execute_def Let_def)
next
  case (snoc b bs)
  have sorted_bs: "sorted (map call_now (bs @ [b]))" and le: "call_now b \<le> call_now c"
    using snoc.prems(1) by (simp_all add: sorted_append)
  let ?s = "three_strike_calls s (bs @ [b])"
  have ev: "stop_loss_events ?s = filter (in_window s (call_now b)) (recorded (bs @ [b]))"
    using snoc.IH [OF sorted_bs snoc.prems(2)] .
  have win: "in_window ?s = in_window s"
    using three_strike_calls_params [of s "bs @ [b]"] by (simp add: in_window_def fun_eq_iff)
  have "stop_loss_events (three_strike_calls s ((bs @ [b]) @ [c])) =
        stop_loss_events (snd (three_strike_should_execute ?s (call_ctx c) (call_default c) (call_now c)))"
    by (simp only: three_strike_calls_append three_strike_calls.simps)
  also have "\<dots> = filter (in_window s (call_now c)) (stop_loss_events ?s @ recorded [c])"
    by (simp add: three_strike_should_execute_def Let_def win)
  also have "\<dots> = filter (in_window s (call_now c)) (recorded (bs @ [b]) @ recorded [c])"
    unfolding ev filter_append by (simp only: filter_in_window_twice [OF le])
  finally show ?case
    by (simp only: recorded_append)
qed

text \<open>
  C3. Take any run of \<open>should_execute\<close> calls on a ThreeStrikeStrategy that starts with
  no recorded events and whose clock readings never decrease. The last call of the run
  returns true exactly when the number of events recorded so far (one per call whose
  context has \<open>stop_loss_hit\<close>) that are still inside the time window at that call's
  clock reading is at least \<open>strike_limit\<close>; and \<open>execute\<close> returns the
  \<open>close_all_positions\<close> action. Every call of a run is the last call of a prefix of
  the run, so this describes each call.
\<close>

theorem three_strike_fires_exactly_at_limit:
  assumes "sorted (map call_now (cs @ [c]))"
    and "stop_loss_events s = []"
  shows "fst (three_strike_should_execute (three_strike_calls s cs)
                (call_ctx c) (call_default c) (call_now c))
         = (strike_limit s \<le> int (length (filter (in_window s (call_now c)) (recorded (cs @ [c])))))
       \<and> three_strike_execute
           (snd (three_strike_should_execute (three_strike_calls s cs)
                  (call_ctx c) (call_default c) (call_now c))) (call_ctx c)
         = CloseAllPositions"
proof -
  let ?r = "three_strike_should_execute (three_strike_calls s cs)
              (call_ctx c) (call_default c) (call_now c)"
  have "stop_loss_events (snd ?r) = filter (in_window s (call_now c)) (recorded (cs @ [c]))"
    using three_strike_calls_events [OF assms] by (simp add: three_strike_calls_append)
  moreover have "fst ?r = (strike_limit s \<le> int (length (stop_loss_events (snd ?r))))"
    using three_strike_calls_params [of s cs]
    by (simp add: three_strike_should_execute_def Let_def)
  ultimately show ?thesis
    by (simp add: three_strike_execute_def)
qed

theorem three_strike_fires_exactly_at_limit_witness:
  "sorted (map call_now ([hit_call ''BTC'' 0, hit_call ''ETH'' 100] @ [hit_call ''SOL'' 200]))
   \<and> stop_loss_events default_three_strike = []
   \<and> fst (three_strike_should_execute
             (three_strike_calls default_three_strike [hit_call ''BTC'' 0, hit_call ''ETH'' 100])
             (call_ctx (hit_call ''SOL'' 200)) (call_default (hit_call ''SOL'' 200))
             (call_now (hit_call ''SOL'' 200)))
   \<and> \<not> fst (three_strike_should_execute
             (three_strike_calls default_three_strike [hit_call ''BTC'' 0])
             (call_ctx (hit_call ''ETH'' 100)) (call_default (hit_call ''ETH'' 100))
             (call_now (hit_call ''ETH'' 100)))"
proof -
  have s3: "sorted (map call_now ([hit_call ''BTC'' 0, hit_call ''ETH'' 100] @ [hit_call ''SOL'' 200]))"
    by (simp add: hit_call_def)
  have s2: "sorted (map call_now ([hit_call ''BTC'' 0] @ [hit_call ''ETH'' 100]))"
    by (simp add: hit_call_def)
  have e: "stop_loss_events default_three_strike = []"
    by (simp add: default_three_strike_def)
  have third: "fst (three_strike_should_execute
             (three_strike_calls default_three_strike [hit_call ''BTC'' 0, hit_call ''ETH'' 100])
             (call_ctx (hit_call ''SOL'' 200)) (call_default (hit_call ''SOL'' 200))
             (call_now (hit_call ''SOL'' 200)))"
    using three_strike_fires_exactly_at_limit [OF s3 e]
    by (simp add: hit_call_def default_three_strike_def in_window_def record_event_def)
  have second: "\<not> fst (three_strike_should_execute
             (three_strike_calls default_three_strike [hit_call ''BTC'' 0])
             (call_ctx (hit_call ''ETH'' 100)) (call_default (hit_call ''ETH'' 100))
             (call_now (hit_call ''ETH'' 100)))"
    using three_strike_fires_exactly_at_limit [OF s2 e]
    by (simp add: hit_call_def default_three_strike_def in_window_def record_event_def)
  show ?thesis
    using s3 e third second by blast
qed

text \<open>
  C4, as stated, fails: the pruning keeps an event when
  \<open>current_time - timestamp \<le> time_window\<close>, so an event whose age is exactly
  \<open>time_window\<close> stays in the list and is counted. Here the window is 10 seconds, the
  single stored event has timestamp 0 and the clock reads 10: the event is retained and,
  with \<open>strike_limit = 1\<close>, the strategy fires.
\<close>

theorem three_strike_boundary_event_retained:
  "three_strike_should_execute
     \<lparr> strike_limit = 1, time_window = 10,
       stop_loss_events = [\<lparr> ev_symbol = ''BTC'', ev_timestamp = 0, ev_side = ''long'', ev_size = 1 \<rparr>] \<rparr>
     (plain_ctx ''BTC'') 10 10
   = (True,
      \<lparr> strike_limit = 1, time_window = 10,
        stop_loss_events = [\<lparr> ev_symbol = ''BTC'', ev_timestamp = 0, ev_side = ''long'', ev_size = 1 \<rparr>] \<rparr>)"
  by (simp add: three_strike_should_execute_def in_window_def plain_ctx_def)

text \<open>
  C4, amended. In the pruning step a stored event is retained, and counted against
  \<open>strike_limit\<close>, exactly when its age \<open>current_time - timestamp\<close> is at most
  \<open>time_window\<close>: an event of age exactly \<open>time_window\<close> is included, as is every
  younger one, and only an event strictly older than \<open>time_window\<close> is excluded.
\<close>

theorem three_strike_prune_boundary_inclusive:
  assumes "e \<in> set (stop_loss_events s)"
  shows "(e \<in> set (stop_loss_events (snd (three_strike_should_execute s c d now)))
            \<longleftrightarrow> now - ev_timestamp e \<le> time_window s)
       \<and> (fst (three_strike_should_execute s c d now)
            \<longleftrightarrow> strike_limit s
                 \<le> int (length (stop_loss_events (snd (three_strike_should_execute s c d now)))))"
  using assms by (auto simp add: three_strike_should_execute_def Let_def in_window_def)

theorem three_strike_prune_boundary_inclusive_witness:
  "\<lparr> ev_symbol = ''BTC'', ev_timestamp = 0, ev_side = ''long'', ev_size = 1 \<rparr>
     \<in> set (stop_loss_events
         \<lparr> strike_limit = 1, time_window = 10,
           stop_loss_events = [\<lparr> ev_symbol = ''BTC'', ev_timestamp = 0, ev_side = ''long'', ev_size = 1 \<rparr>] \<rparr>)
   \<and> \<lparr> ev_symbol = ''BTC'', ev_timestamp = 0, ev_side = ''long'', ev_size = 1 \<rparr>
     \<in> set (stop_loss_events (snd (three_strike_should_execute
         \<lparr> strike_limit = 1, time_window = 10,
           stop_loss_events = [\<lparr> ev_symbol = ''BTC'', ev_timestamp = 0, ev_side = ''long'', ev_size = 1 \<rparr>] \<rparr>
         (plain_ctx ''BTC'') 10 10)))
   \<and> \<lparr> ev_symbol = ''BTC'', ev_timestamp = 0, ev_side = ''long'', ev_size = 1 \<rparr>
     \<notin> set (stop_loss_events (snd (three_strike_should_execute
         \<lparr> strike_limit = 1, time_window = 10,
           stop_loss_events = [\<lparr> ev_symbol = ''BTC'', ev_timestamp = 0, ev_side = ''long'', ev_size = 1 \<rparr>] \<rparr>
         (plain_ctx ''BTC'') 11 11)))"
proof -
  let ?e = "\<lparr> ev_symbol = ''BTC'', ev_timestamp = 0, ev_side = ''long'', ev_size = 1 \<rparr>"
  let ?s = "\<lparr> strike_limit = 1, time_window = 10, stop_loss_events = [?e] \<rparr>"
  have m: "?e \<in> set (stop_loss_events ?s)"
    by simp
  show ?thesis
    using m three_strike_prune_boundary_inclusive [OF m, of "plain_ctx ''BTC''" 10 10]
      three_strike_prune_boundary_inclusive [OF m, of "plain_ctx ''BTC''" 11 11]
    by simp
qed

section \<open>Properties of StopAndReverseStrategy\<close>

text \<open>
  C9. \<open>StopAndReverseStrategy.execute\<close>, given a context that names a symbol and whose
  position has side \<open>long\<close> and a last price \<open>E\<close>, returns a \<open>place_order_with_tp\<close>
  action with side \<open>sell\<close> and take-profit \<open>E * (1 - tp_percentage / 100)\<close>; for side
  \<open>short\<close> it returns side \<open>buy\<close> and take-profit \<open>E * (1 + tp_percentage / 100)\<close>.
  The price is a price, so non-zero: a zero or absent \<open>last_price\<close> is what the method's
  guard takes for missing information.
\<close>

theorem stop_and_reverse_flips_side_with_take_profit:
  assumes "ctx_position c = Some p"
    and "ctx_symbol c \<noteq> []"
    and "pos_last_price p = Some E"
    and "E \<noteq> 0"
    and "pos_side p = ''long'' \<or> pos_side p = ''short''"
  shows "stop_and_reverse_execute s c =
           PlaceOrderWithTp (ctx_symbol c)
             (if pos_side p = ''long'' then ''sell'' else ''buy'') ''market''
             (if pos_side p = ''long''
              then E * (1 - tp_percentage s / 100)
              else E * (1 + tp_percentage s / 100))"
  using assms by (auto simp add: stop_and_reverse_execute_def Let_def)

text \<open>The spec's example: exit at 100 with a take-profit of 2 percent.\<close>

theorem stop_and_reverse_flips_side_with_take_profit_witness:
  "stop_and_reverse_execute \<lparr> tp_percentage = 2 \<rparr>
     ((plain_ctx ''BTC'')\<lparr> ctx_stop_loss_hit := True,
        ctx_position := Some ((example_position ''BTC'' ''long'')\<lparr> pos_last_price := Some 100 \<rparr>) \<rparr>)
     = PlaceOrderWithTp ''BTC'' ''sell'' ''market'' 98
   \<and> stop_and_reverse_execute \<lparr> tp_percentage = 2 \<rparr>
     ((plain_ctx ''BTC'')\<lparr> ctx_stop_loss_hit := True,
        ctx_position := Some ((example_position ''BTC'' ''short'')\<lparr> pos_last_price := Some 100 \<rparr>) \<rparr>)
     = PlaceOrderWithTp ''BTC'' ''buy'' ''market'' 102"
proof -
  let ?long = "(example_position ''BTC'' ''long'')\<lparr> pos_last_price := Some 100 \<rparr>"
  let ?short = "(example_position ''BTC'' ''short'')\<lparr> pos_last_price := Some 100 \<rparr>"
  let ?c = "\<lambda>p. (plain_ctx ''BTC'')\<lparr> ctx_stop_loss_hit := True, ctx_position := Some p \<rparr>"
  have l: "stop_and_reverse_execute \<lparr> tp_percentage = 2 \<rparr> (?c ?long)
           = PlaceOrderWithTp ''BTC'' ''sell'' ''market'' 98"
    using stop_and_reverse_flips_side_with_take_profit
            [of "?c ?long" ?long 100 "\<lparr> tp_percentage = 2 \<rparr>"]
    by (simp add: plain_ctx_def example_position_def)
  have s: "stop_and_reverse_execute \<lparr> tp_percentage = 2 \<rparr> (?c ?short)
           = PlaceOrderWithTp ''BTC'' ''buy'' ''market'' 102"
    using stop_and_reverse_flips_side_with_take_profit
            [of "?c ?short" ?short 100 "\<lparr> tp_percentage = 2 \<rparr>"]
    by (simp add: plain_ctx_def example_position_def)
  show ?thesis using l s by simp
qed

section \<open>Properties of TrailingStopWithPartialProfits\<close>

text \<open>
  For a long position the trigger is non-zero as soon as the price that crossed it is
  positive; for a short one, as soon as the low-water mark is positive and the distance
  is not minus 100 percent.
\<close>

lemma crossed_long_trigger_truthy:
  "0 < current_price \<Longrightarrow> fle current_price t \<Longrightarrow> truthy t"
  by (cases t) auto

lemma short_trigger_truthy:
  "0 < lowest \<Longrightarrow> - 100 < pct \<Longrightarrow> truthy (Fin (lowest + lowest * (pct / 100)))"
proof -
  assume a: "0 < lowest" "- 100 < pct"
  have "lowest + lowest * (pct / 100) = lowest * (1 + pct / 100)"
    by (simp add: algebra_simps)
  moreover have "0 < lowest * (1 + pct / 100)"
    using a by (intro mult_pos_pos) simp_all
  ultimately have "lowest + lowest * (pct / 100) \<noteq> 0"
    by linarith
  then show ?thesis
    by simp
qed

text \<open>
  C8. One \<open>should_execute\<close> evaluation of TrailingStopWithPartialProfits on a context
  with a position and a symbol, at the price the ticker returns. Let the trigger be the
  trailing-stop price at \<open>trailing_distance_pct\<close> behind the updated watermark, and let
  it be a usable (non-zero) price. If the price has crossed the trigger (\<open>\<le>\<close> for a long,
  \<open>\<ge>\<close> for a short), then, whatever the profit levels are, the method flags
  \<open>trailing_stop_hit\<close> in the context and returns true without marking any profit level
  as taken or attaching a partial-profit action; \<open>execute\<close> then returns the one action
  \<open>close_position\<close> and deletes the symbol's tracking state.
\<close>

theorem trailing_stop_takes_priority:
  assumes "ctx_position c = Some p"
    and "ctx_symbol c \<noteq> []"
    and "gw_fetch_ticker gw calls (ctx_symbol c) = Returned price"
    and "position_data (update_position_tracking s (ctx_symbol c) p price) (ctx_symbol c) = Some d"
    and "calculate_trailing_stop (update_position_tracking s (ctx_symbol c) p price) (ctx_symbol c) = Some t"
    and "truthy t"
    and "trailing_stop_crossed d price t"
  shows "trailing_should_execute gw calls s c =
           (True, c\<lparr>ctx_trailing_stop_hit := True\<rparr>,
            update_position_tracking s (ctx_symbol c) p price,
            calls @ [FetchTicker (ctx_symbol c)])
       \<and> fst (trailing_execute (update_position_tracking s (ctx_symbol c) p price)
                (c\<lparr>ctx_trailing_stop_hit := True\<rparr>)) = ClosePosition (ctx_symbol c)
       \<and> position_data (snd (trailing_execute (update_position_tracking s (ctx_symbol c) p price)
                (c\<lparr>ctx_trailing_stop_hit := True\<rparr>))) (ctx_symbol c) = None
       \<and> pt_profits_taken d =
           (case position_data s (ctx_symbol c) of None \<Rightarrow> [] | Some d0 \<Rightarrow> pt_profits_taken d0)"
proof -
  have taken: "pt_profits_taken d =
           (case position_data s (ctx_symbol c) of None \<Rightarrow> [] | Some d0 \<Rightarrow> pt_profits_taken d0)"
    using assms(4) by (auto simp add: update_position_tracking_def split: option.splits if_splits)
  show ?thesis
    using assms taken by (simp add: trailing_should_execute_def trailing_execute_def Let_def)
qed

text \<open>
  The spec's example: a long entered at 100, watermark 110, distance 1 percent, price
  108.9. The trigger is 108.9 and the price is on it; the 5 percent profit level is
  reached and untaken (the last conjunct: asked at this state, \<open>check_partial_profits\<close>
  would take it), and the trailing stop wins.
\<close>

theorem trailing_stop_takes_priority_witness:
  "trailing_should_execute (quiet_gateway\<lparr> gw_fetch_ticker := \<lambda>calls symbol. Returned (1089 / 10) \<rparr>)
       [] (example_trailing ''BTC'') (plain_ctx ''BTC'')
     = (True, (plain_ctx ''BTC'')\<lparr>ctx_trailing_stop_hit := True\<rparr>,
        update_position_tracking (example_trailing ''BTC'') ''BTC'' (example_position ''BTC'' ''long'') (1089 / 10),
        [FetchTicker ''BTC''])
   \<and> fst (check_partial_profits
            (update_position_tracking (example_trailing ''BTC'') ''BTC'' (example_position ''BTC'' ''long'') (1089 / 10))
            ''BTC'' (example_position ''BTC'' ''long'') (1089 / 10))
     = Inr (Some (PartialClose ''BTC'' (1 / 5) 5))"
proof -
  let ?gw = "quiet_gateway\<lparr> gw_fetch_ticker := \<lambda>calls symbol. Returned (1089 / 10) \<rparr>"
  let ?p = "example_position ''BTC'' ''long''"
  let ?d = "\<lparr> pt_entry_price = 100, pt_side = ''long'', pt_highest_price = Fin 110,
             pt_lowest_price = 0, pt_profits_taken = [] \<rparr>"
  have h1: "ctx_position (plain_ctx ''BTC'') = Some ?p" by (simp add: plain_ctx_def)
  have h2: "ctx_symbol (plain_ctx ''BTC'') \<noteq> []" by (simp add: plain_ctx_def)
  have h3: "gw_fetch_ticker ?gw [] (ctx_symbol (plain_ctx ''BTC'')) = Returned (1089 / 10)" by simp
  have h4: "position_data (update_position_tracking (example_trailing ''BTC'')
              (ctx_symbol (plain_ctx ''BTC'')) ?p (1089 / 10)) (ctx_symbol (plain_ctx ''BTC'')) = Some ?d"
    by (simp add: plain_ctx_def update_position_tracking_def example_trailing_def example_position_def)
  have h5: "calculate_trailing_stop (update_position_tracking (example_trailing ''BTC'')
              (ctx_symbol (plain_ctx ''BTC'')) ?p (1089 / 10)) (ctx_symbol (plain_ctx ''BTC''))
            = Some (Fin (1089 / 10))"
    by (simp add: calculate_trailing_stop_def h4)
       (simp add: update_position_tracking_def example_trailing_def plain_ctx_def)
  have h6: "truthy (Fin (1089 / 10))" by simp
  have h7: "trailing_stop_crossed ?d (1089 / 10) (Fin (1089 / 10))"
    by (simp add: trailing_stop_crossed_def)
  have partial: "fst (check_partial_profits
            (update_position_tracking (example_trailing ''BTC'') ''BTC'' ?p (1089 / 10))
            ''BTC'' ?p (1089 / 10))
     = Inr (Some (PartialClose ''BTC'' (1 / 5) 5))"
    using h4
    by (simp add: check_partial_profits_def plain_ctx_def profit_percentage_def)
       (simp add: update_position_tracking_def example_trailing_def example_position_def)
  show ?thesis
    using trailing_stop_takes_priority [OF h1 h2 h3 h4 h5 h6 h7] partial
    by (simp add: plain_ctx_def)
qed

section \<open>Properties of the order executor\<close>

text \<open>
  C10. \<open>place_order_with_tp\<close> returns \<^verbatim>\<open>None\<close> on every input, and does nothing beyond
  what its call of \<open>place_order\<close> does: no position is read back and no take-profit
  order is submitted. \<open>place_order\<close> returns a bool; on \<^verbatim>\<open>False\<close> the guard returns
  \<^verbatim>\<open>None\<close>, on \<^verbatim>\<open>True\<close> the test \<^verbatim>\<open>'id' not in order\<close> raises and the handler returns
  \<^verbatim>\<open>None\<close>.
\<close>

theorem place_order_with_tp_returns_none:
  "place_order_with_tp gw st symbol side order_type amount price take_profit =
     (None, snd (place_order gw st symbol side order_type amount price None None None [] False))"
proof (cases "place_order gw st symbol side order_type amount price None None None [] False")
  case (Pair placed st1)
  then show ?thesis
    by (cases placed) (simp_all add: place_order_with_tp_def)
qed

text \<open>
  An accepted market sell of 1 BTC with a take-profit of 98: the entry is placed and
  recorded, the result is \<^verbatim>\<open>None\<close>, and the calls are the mode query, the ticker and
  the entry order; no take-profit order follows.
\<close>

theorem place_order_with_tp_returns_none_witness:
  "place_order_with_tp accepting_gateway new_trade_manager ''BTC'' ''sell'' ''market''
       (Some 1) None (Some 98)
     = (None,
        new_trade_manager
          \<lparr> tm_calls := [FapiPrivateGetPositionSideDual, FetchTicker ''BTC'',
                         CreateMarketSellOrder ''BTC'' (Some 1) []],
            tm_orders := [example_order ''7'' ''BTC'' ''market''],
            tm_position_strategies := [(''BTC'', [0])] \<rparr>)"
proof -
  have lo: "lower ''market'' = ''market''" "lower ''sell'' = ''sell''"
    by (simp_all add: lower_def lower_char_def)
  have placed: "place_order accepting_gateway new_trade_manager ''BTC'' ''sell'' ''market''
       (Some 1) None None None None [] False
     = (True,
        new_trade_manager
          \<lparr> tm_calls := [FapiPrivateGetPositionSideDual, FetchTicker ''BTC'',
                         CreateMarketSellOrder ''BTC'' (Some 1) []],
            tm_orders := [example_order ''7'' ''BTC'' ''market''],
            tm_position_strategies := [(''BTC'', [0])] \<rparr>)"
    by (simp add: place_order_def get_position_mode_def accepting_gateway_def quiet_gateway_def
        new_trade_manager_def gateway_call_def py_truthy_def lo place_risk_orders_def Let_def)
  show ?thesis
    using place_order_with_tp_returns_none
            [of accepting_gateway new_trade_manager "''BTC''" "''sell''" "''market''"
                "Some 1" None "Some 98"]
    by (simp add: placed)
qed

lemma process_positions_no_stop_loss:
  "process_positions gw calls rps = (Returned ps, calls') \<Longrightarrow> p \<in> set ps \<Longrightarrow> pos_stop_loss p = None"
proof (induction rps arbitrary: calls ps calls')
  case Nil
  then show ?case by simp
next
  case (Cons a rps)
  then show ?case
    by (auto split: if_splits reply.splits prod.splits)
qed

lemma get_open_positions_no_stop_loss:
  "p \<in> set (fst (get_open_positions gw st)) \<Longrightarrow> pos_stop_loss p = None"
  using process_positions_no_stop_loss
  by (auto simp add: get_open_positions_def split: reply.splits prod.splits)

text \<open>
  C7. A position dict produced by \<open>get_open_positions\<close> has the key \<open>sl_price\<close> and
  no key \<open>stop_loss\<close>. For every such position, every symbol and every current price,
  \<open>check_stop_loss_hit\<close> returns \<^verbatim>\<open>False\<close> and leaves the trade manager as it was: no
  clock read, no strategy evaluated or changed, no gateway call.
\<close>

theorem open_positions_never_hit_stop_loss:
  assumes "p \<in> set (fst (get_open_positions gw st))"
  shows "check_stop_loss_hit gw' st' symbol p current_price = (Inr False, st')"
  using get_open_positions_no_stop_loss [OF assms]
  by (simp add: check_stop_loss_hit_def number_or_zero_def)

lemma lower_stop_market: "lower ''stop_market'' = ''stop_market''"
  by (simp add: lower_def lower_char_def)

text \<open>
  A long position with an open \<open>stop_market\<close> order triggering at 95: the snapshot
  carries \<open>sl_price = 95\<close>, and at a current price of 90, below the stop, the check still
  answers \<^verbatim>\<open>False\<close>.
\<close>

theorem open_positions_never_hit_stop_loss_witness:
  "fst (get_open_positions
          (quiet_gateway\<lparr> gw_fetch_positions := \<lambda>calls symbols. Returned [example_raw_position ''BTC'' ''long''],
                          gw_fetch_open_orders := \<lambda>calls symbol. Returned [example_order ''1'' ''BTC'' ''stop_market''] \<rparr>)
          new_trade_manager)
     = [(example_position ''BTC'' ''long'')\<lparr> pos_sl_price := Some 95 \<rparr>]
   \<and> check_stop_loss_hit
          (quiet_gateway\<lparr> gw_fetch_positions := \<lambda>calls symbols. Returned [example_raw_position ''BTC'' ''long''],
                          gw_fetch_open_orders := \<lambda>calls symbol. Returned [example_order ''1'' ''BTC'' ''stop_market''] \<rparr>)
          new_trade_manager ''BTC''
          ((example_position ''BTC'' ''long'')\<lparr> pos_sl_price := Some 95 \<rparr>) 90
     = (Inr False, new_trade_manager)"
proof -
  let ?gw = "quiet_gateway\<lparr> gw_fetch_positions := \<lambda>calls symbols. Returned [example_raw_position ''BTC'' ''long''],
                          gw_fetch_open_orders := \<lambda>calls symbol. Returned [example_order ''1'' ''BTC'' ''stop_market''] \<rparr>"
  let ?p = "(example_position ''BTC'' ''long'')\<lparr> pos_sl_price := Some 95 \<rparr>"
  have got: "fst (get_open_positions ?gw new_trade_manager) = [?p]"
    by (simp add: get_open_positions_def example_raw_position_def example_order_def
        example_position_def number_or_zero_def lower_stop_market py_or_def py_truthy_def)
  then have m: "?p \<in> set (fst (get_open_positions ?gw new_trade_manager))"
    by simp
  show ?thesis
    using got open_positions_never_hit_stop_loss [OF m, of ?gw new_trade_manager "''BTC''" 90]
    by simp
qed

text \<open>
  C5. \<open>_place_stop_loss\<close> and \<open>_place_take_profit\<close> query the position mode and then
  try at most four order submissions in a fixed order: type \<open>market\<close> with the stop
  price in the params, then \<open>STOP_MARKET\<close> (\<open>TAKE_PROFIT_MARKET\<close> for a take-profit),
  then \<open>STOP\<close> (\<open>TAKE_PROFIT\<close>, with the price as limit price), then the direct
  \<open>fapiPrivatePostOrder\<close> call. The first attempt that does not raise ends the function
  with \<^verbatim>\<open>True\<close> and nothing later is submitted; the result is \<^verbatim>\<open>False\<close> only after the
  fourth attempt has been made and has raised like the three before it. Each attempt is
  answered by the gateway at the log it finds, so the outcomes may differ from one
  attempt to the next in any way.
\<close>

theorem conditional_order_fallback_chain:
  fixes gw st symbol position price
  defines "h \<equiv> fst (get_position_mode gw st)"
    and "base \<equiv> tm_calls st @ [FapiPrivateGetPositionSideDual]"
    and "sd \<equiv> (if pos_side position = ''long'' then ''sell'' else ''buy'')"
  defines "ps \<equiv> conditional_params h (pos_side position) price"
  defines "s1 \<equiv> CreateOrder symbol ''market'' sd (pos_size position) None ps"
    and "s2 \<equiv> CreateOrder symbol ''STOP_MARKET'' sd (pos_size position) None ps"
    and "s3 \<equiv> CreateOrder symbol ''STOP'' sd (pos_size position) None ps"
    and "s4 \<equiv> FapiPrivatePostOrder
               (direct_params h ps symbol sd ''STOP_MARKET'' price (pos_size position))"
    and "t1 \<equiv> CreateOrder symbol ''market'' sd (pos_size position) None ps"
    and "t2 \<equiv> CreateOrder symbol ''TAKE_PROFIT_MARKET'' sd (pos_size position) None ps"
    and "t3 \<equiv> CreateOrder symbol ''TAKE_PROFIT'' sd (pos_size position) (Some price) ps"
    and "t4 \<equiv> FapiPrivatePostOrder
               (direct_params h ps symbol sd ''TAKE_PROFIT_MARKET'' price (pos_size position))"
  shows "place_stop_loss gw st symbol position price =
         (if gw_submit gw base s1 \<noteq> Raised then (True, st\<lparr>tm_calls := base @ [s1]\<rparr>)
          else if gw_submit gw (base @ [s1]) s2 \<noteq> Raised
          then (True, st\<lparr>tm_calls := base @ [s1, s2]\<rparr>)
          else if gw_submit gw (base @ [s1, s2]) s3 \<noteq> Raised
          then (True, st\<lparr>tm_calls := base @ [s1, s2, s3]\<rparr>)
          else (gw_submit gw (base @ [s1, s2, s3]) s4 \<noteq> Raised,
                st\<lparr>tm_calls := base @ [s1, s2, s3, s4]\<rparr>))
       \<and> place_take_profit gw st symbol position price =
         (if gw_submit gw base t1 \<noteq> Raised then (True, st\<lparr>tm_calls := base @ [t1]\<rparr>)
          else if gw_submit gw (base @ [t1]) t2 \<noteq> Raised
          then (True, st\<lparr>tm_calls := base @ [t1, t2]\<rparr>)
          else if gw_submit gw (base @ [t1, t2]) t3 \<noteq> Raised
          then (True, st\<lparr>tm_calls := base @ [t1, t2, t3]\<rparr>)
          else (gw_submit gw (base @ [t1, t2, t3]) t4 \<noteq> Raised,
                st\<lparr>tm_calls := base @ [t1, t2, t3, t4]\<rparr>))"
proof -
  have gpm: "get_position_mode gw st = (h, st\<lparr>tm_calls := base\<rparr>)"
    unfolding h_def base_def
    by (simp add: get_position_mode_def gateway_call_def)
  have sl: "place_stop_loss gw st symbol position price =
    (case gw_submit gw base s1 of
       Returned order \<Rightarrow> (True, st\<lparr>tm_calls := base @ [s1]\<rparr>)
     | Raised \<Rightarrow>
    (case gw_submit gw (base @ [s1]) s2 of
       Returned order \<Rightarrow> (True, st\<lparr>tm_calls := base @ [s1, s2]\<rparr>)
     | Raised \<Rightarrow>
    (case gw_submit gw (base @ [s1, s2]) s3 of
       Returned order \<Rightarrow> (True, st\<lparr>tm_calls := base @ [s1, s2, s3]\<rparr>)
     | Raised \<Rightarrow>
    (case gw_submit gw (base @ [s1, s2, s3]) s4 of
       Returned order \<Rightarrow> (True, st\<lparr>tm_calls := base @ [s1, s2, s3, s4]\<rparr>)
     | Raised \<Rightarrow> (False, st\<lparr>tm_calls := base @ [s1, s2, s3, s4]\<rparr>)))))"
    unfolding place_stop_loss_def gpm Let_def gateway_call_def s1_def s2_def s3_def s4_def ps_def sd_def
    by (simp cong: reply.case_cong)
  have tp: "place_take_profit gw st symbol position price =
    (case gw_submit gw base t1 of
       Returned order \<Rightarrow> (True, st\<lparr>tm_calls := base @ [t1]\<rparr>)
     | Raised \<Rightarrow>
    (case gw_submit gw (base @ [t1]) t2 of
       Returned order \<Rightarrow> (True, st\<lparr>tm_calls := base @ [t1, t2]\<rparr>)
     | Raised \<Rightarrow>
    (case gw_submit gw (base @ [t1, t2]) t3 of
       Returned order \<Rightarrow> (True, st\<lparr>tm_calls := base @ [t1, t2, t3]\<rparr>)
     | Raised \<Rightarrow>
    (case gw_submit gw (base @ [t1, t2, t3]) t4 of
       Returned order \<Rightarrow> (True, st\<lparr>tm_calls := base @ [t1, t2, t3, t4]\<rparr>)
     | Raised \<Rightarrow> (False, st\<lparr>tm_calls := base @ [t1, t2, t3, t4]\<rparr>)))))"
    unfolding place_take_profit_def gpm Let_def gateway_call_def t1_def t2_def t3_def t4_def ps_def sd_def
    by (simp cong: reply.case_cong)
  have sl': "place_stop_loss gw st symbol position price =
         (if gw_submit gw base s1 \<noteq> Raised then (True, st\<lparr>tm_calls := base @ [s1]\<rparr>)
          else if gw_submit gw (base @ [s1]) s2 \<noteq> Raised
          then (True, st\<lparr>tm_calls := base @ [s1, s2]\<rparr>)
          else if gw_submit gw (base @ [s1, s2]) s3 \<noteq> Raised
          then (True, st\<lparr>tm_calls := base @ [s1, s2, s3]\<rparr>)
          else (gw_submit gw (base @ [s1, s2, s3]) s4 \<noteq> Raised,
                st\<lparr>tm_calls := base @ [s1, s2, s3, s4]\<rparr>))"
    unfolding sl
    by (cases "gw_submit gw base s1"; cases "gw_submit gw (base @ [s1]) s2";
        cases "gw_submit gw (base @ [s1, s2]) s3"; cases "gw_submit gw (base @ [s1, s2, s3]) s4";
        simp)
  have tp': "place_take_profit gw st symbol position price =
         (if gw_submit gw base t1 \<noteq> Raised then (True, st\<lparr>tm_calls := base @ [t1]\<rparr>)
          else if gw_submit gw (base @ [t1]) t2 \<noteq> Raised
          then (True, st\<lparr>tm_calls := base @ [t1, t2]\<rparr>)
          else if gw_submit gw (base @ [t1, t2]) t3 \<noteq> Raised
          then (True, st\<lparr>tm_calls := base @ [t1, t2, t3]\<rparr>)
          else (gw_submit gw (base @ [t1, t2, t3]) t4 \<noteq> Raised,
                st\<lparr>tm_calls := base @ [t1, t2, t3, t4]\<rparr>))"
    unfolding tp
    by (cases "gw_submit gw base t1"; cases "gw_submit gw (base @ [t1]) t2";
        cases "gw_submit gw (base @ [t1, t2]) t3"; cases "gw_submit gw (base @ [t1, t2, t3]) t4";
        simp)
  from sl' tp' show ?thesis by (rule conjI)
qed

text \<open>
  The conditional-order helpers put \<open>reduceOnly\<close> into the params in either mode, and
  \<open>positionSide\<close> in hedge mode only.
\<close>

lemma conditional_params_keys:
  "has_key (conditional_params is_hedge_mode side price) ''reduceOnly''
   \<and> (has_key (conditional_params is_hedge_mode side price) ''positionSide'' \<longleftrightarrow> is_hedge_mode)"
  by (cases is_hedge_mode) (simp_all add: conditional_params_def has_key_def Let_def)

text \<open>
  \<open>close_position\<close> follows the mode: its one order carries \<open>positionSide\<close> and no
  \<open>reduceOnly\<close> in hedge mode, \<open>reduceOnly\<close> and no \<open>positionSide\<close> in one-way mode.
\<close>

lemma close_position_params_follow_mode:
  assumes "get_open_positions gw st = (positions, st1)"
    and "find (\<lambda>pos. pos_symbol pos = symbol) positions = Some position"
    and "get_position_mode gw st1 = (is_hedge_mode, st2)"
  shows "\<exists>ps. tm_calls (snd (close_position gw st symbol)) =
               tm_calls st2 @
               [if pos_side position = ''long''
                then CreateMarketSellOrder symbol (Some (pos_size position)) ps
                else CreateMarketBuyOrder symbol (Some (pos_size position)) ps]
            \<and> has_key ps ''positionSide'' = is_hedge_mode
            \<and> has_key ps ''reduceOnly'' = (\<not> is_hedge_mode)"
  using assms
  by (auto simp add: close_position_def Let_def gateway_call_def has_key_def split: reply.splits)

text \<open>
  C1, evaluated where the code departs from it. The account is in hedge mode and the
  gateway accepts the first submission. \<open>_place_stop_loss\<close> for a long position of size
  1 with stop price 95 submits one order whose params hold \<open>positionSide = LONG\<close> and
  also \<open>reduceOnly = True\<close>; \<open>_place_take_profit\<close> at 105 does the same.
\<close>

theorem hedge_mode_conditional_orders_carry_reduce_only:
  "tm_calls (snd (place_stop_loss hedge_gateway new_trade_manager ''BTC/USDT:USDT''
                    (example_position ''BTC/USDT:USDT'' ''long'') 95))
     = [FapiPrivateGetPositionSideDual,
        CreateOrder ''BTC/USDT:USDT'' ''market'' ''sell'' 1 None
          [(''stopPrice'', PNum 95), (''reduceOnly'', PBool True),
           (''closePosition'', PStr ''true''), (''positionSide'', PStr ''LONG'')]]
   \<and> tm_calls (snd (place_take_profit hedge_gateway new_trade_manager ''BTC/USDT:USDT''
                    (example_position ''BTC/USDT:USDT'' ''long'') 105))
     = [FapiPrivateGetPositionSideDual,
        CreateOrder ''BTC/USDT:USDT'' ''market'' ''sell'' 1 None
          [(''stopPrice'', PNum 105), (''reduceOnly'', PBool True),
           (''closePosition'', PStr ''true''), (''positionSide'', PStr ''LONG'')]]"
  by (simp add: place_stop_loss_def place_take_profit_def get_position_mode_def gateway_call_def
      hedge_gateway_def quiet_gateway_def new_trade_manager_def example_position_def
      conditional_params_def Let_def)

section \<open>Properties of set_position_sltp\<close>

text \<open>
  The cancel loop makes exactly the cancellations of the conditional orders up to and
  including the first one that raises: \<open>n\<close> of them, where none of the first \<open>n - 1\<close>
  raised and, when \<open>n\<close> is not all of them, the \<open>n\<close>-th did.
\<close>

lemma cancellation_raises_first:
  "cancellation_raises gw symbol base (order # rest) 0
     \<longleftrightarrow> gw_cancel_order gw base (ro_id order) symbol = Raised"
  by (simp add: cancellation_raises_def)

lemma cancellation_raises_later:
  "cancellation_raises gw symbol base (order # rest) (Suc i)
     \<longleftrightarrow> cancellation_raises gw symbol (base @ [CancelOrder (ro_id order) symbol]) rest i"
  by (simp add: cancellation_raises_def cancel_calls_def)

lemma cancel_conditional_orders_calls:
  "\<exists>n \<le> length (filter is_conditional orders).
      cancel_conditional_orders gw symbol orders st =
        st\<lparr>tm_calls := tm_calls st @ take n (cancel_calls symbol (filter is_conditional orders))\<rparr>
    \<and> (\<forall>i. i + 1 < n \<longrightarrow>
           \<not> cancellation_raises gw symbol (tm_calls st) (filter is_conditional orders) i)
    \<and> (n < length (filter is_conditional orders) \<longrightarrow>
           0 < n \<and> cancellation_raises gw symbol (tm_calls st) (filter is_conditional orders) (n - 1))"
proof (induction orders arbitrary: st)
  case Nil
  then show ?case by (simp add: cancel_calls_def)
next
  case (Cons order rest)
  show ?case
  proof (cases "is_conditional order")
    case False
    then show ?thesis
      using Cons.IH [of st] by (simp add: is_conditional_def Let_def)
  next
    case True
    let ?ms = "filter is_conditional rest"
    have ms: "filter is_conditional (order # rest) = order # ?ms"
      using True by simp
    show ?thesis
    proof (cases "gw_cancel_order gw (tm_calls st) (ro_id order) symbol")
      case Raised
      have run: "cancel_conditional_orders gw symbol (order # rest) st =
            st\<lparr>tm_calls := tm_calls st @ take 1 (cancel_calls symbol (order # ?ms))\<rparr>"
        using True Raised
        by (simp add: cancel_calls_def is_conditional_def Let_def gateway_call_def)
      have first: "cancellation_raises gw symbol (tm_calls st) (order # ?ms) 0"
        using Raised by (simp add: cancellation_raises_first)
      show ?thesis
        unfolding ms
        by (rule exI [of _ 1]) (use run first in simp)
    next
      case (Returned r)
      let ?st = "gateway_call (CancelOrder (ro_id order) symbol) st"
      obtain n where le: "n \<le> length ?ms"
        and run: "cancel_conditional_orders gw symbol rest ?st =
            ?st\<lparr>tm_calls := tm_calls ?st @ take n (cancel_calls symbol ?ms)\<rparr>"
        and before: "\<And>i. i + 1 < n \<Longrightarrow> \<not> cancellation_raises gw symbol (tm_calls ?st) ?ms i"
        and last: "n < length ?ms \<Longrightarrow>
                     0 < n \<and> cancellation_raises gw symbol (tm_calls ?st) ?ms (n - 1)"
        using Cons.IH [of ?st] by blast
      have calls: "tm_calls ?st = tm_calls st @ [CancelOrder (ro_id order) symbol]"
        by (simp add: gateway_call_def)
      have run': "cancel_conditional_orders gw symbol (order # rest) st =
            st\<lparr>tm_calls := tm_calls st @ take (Suc n) (cancel_calls symbol (order # ?ms))\<rparr>"
        using True Returned run
        by (simp add: cancel_calls_def is_conditional_def Let_def gateway_call_def)
      have before': "\<not> cancellation_raises gw symbol (tm_calls st) (order # ?ms) i"
        if "i + 1 < Suc n" for i
      proof (cases i)
        case 0
        then show ?thesis using Returned by (simp add: cancellation_raises_first)
      next
        case (Suc j)
        then have "j + 1 < n" using that by simp
        then show ?thesis
          using before [of j] Suc by (simp add: cancellation_raises_later calls)
      qed
      have last': "0 < Suc n \<and> cancellation_raises gw symbol (tm_calls st) (order # ?ms) (Suc n - 1)"
        if "Suc n < length (order # ?ms)"
      proof -
        have "n < length ?ms" using that by simp
        then have "0 < n" and r: "cancellation_raises gw symbol (tm_calls ?st) ?ms (n - 1)"
          using last by simp_all
        then obtain j where j: "n = Suc j" by (cases n) simp_all
        show ?thesis
          using r j by (simp add: cancellation_raises_later calls)
      qed
      show ?thesis
        unfolding ms
        by (rule exI [of _ "Suc n"]) (use le run' before' last' in auto)
    qed
  qed
qed


lemma cancel_existing_calls:
  "\<exists>n \<le> length (filter is_conditional (fetched_orders gw (tm_calls st) symbol)).
      cancel_existing gw symbol st =
        st\<lparr>tm_calls := tm_calls st @ FetchOpenOrders symbol
               # take n (cancel_calls symbol
                    (filter is_conditional (fetched_orders gw (tm_calls st) symbol)))\<rparr>
    \<and> (\<forall>i. i + 1 < n \<longrightarrow>
           \<not> cancellation_raises gw symbol (tm_calls st @ [FetchOpenOrders symbol])
               (filter is_conditional (fetched_orders gw (tm_calls st) symbol)) i)
    \<and> (n < length (filter is_conditional (fetched_orders gw (tm_calls st) symbol)) \<longrightarrow>
           0 < n \<and> cancellation_raises gw symbol (tm_calls st @ [FetchOpenOrders symbol])
               (filter is_conditional (fetched_orders gw (tm_calls st) symbol)) (n - 1))"
proof (cases "gw_fetch_open_orders gw (tm_calls st) symbol")
  case Raised
  then show ?thesis
    by (simp add: cancel_existing_def fetched_orders_def gateway_call_def cancel_calls_def)
next
  case (Returned open_orders)
  let ?st = "gateway_call (FetchOpenOrders symbol) st"
  have f: "fetched_orders gw (tm_calls st) symbol = open_orders"
    using Returned by (simp add: fetched_orders_def)
  have c: "tm_calls ?st = tm_calls st @ [FetchOpenOrders symbol]"
    by (simp add: gateway_call_def)
  have e: "cancel_existing gw symbol st = cancel_conditional_orders gw symbol open_orders ?st"
    using Returned by (simp add: cancel_existing_def)
  show ?thesis
    using cancel_conditional_orders_calls [of open_orders gw symbol ?st]
    unfolding f e c by (auto simp add: gateway_call_def)
qed

text \<open>
  C6, amended. \<open>set_position_sltp\<close>, given an open position for the symbol, first
  fetches the open orders and cancels, in order, those whose lower-cased type token
  contains \<open>stop\<close> or \<open>take_profit\<close>: all of them when no cancellation raises, and
  otherwise those up to and including the first cancellation that raises, which ends
  the cancelling (\<open>n\<close> cancellations are made; none before the last of them raised,
  and when \<open>n\<close> is fewer than all, the last one made did raise). Whatever happened
  while cancelling, it then places the new stop-loss, if a price is given, by one
  \<open>create_order\<close> call of type \<open>stop_market\<close>, and the new take-profit, if a price is
  given, by one \<open>create_order\<close> call of type \<open>take_profit_market\<close>; there is no
  fallback chain, no other submission is made whether these calls raise or not, and the
  result is \<^verbatim>\<open>True\<close>.
\<close>

theorem set_position_sltp_single_attempts:
  fixes gw st symbol stop_loss_price take_profit_price position others
  assumes "gw_fetch_positions gw (tm_calls st) (Some [symbol]) = Returned (position # others)"
    and "number_or_zero (rp_contracts position) \<noteq> 0"
  defines "side \<equiv> (case rp_side position of
                      Some sd \<Rightarrow> lower sd
                    | None \<Rightarrow> if 0 < number_or_zero (rp_contracts position) then ''long'' else ''short'')"
    and "matching \<equiv> filter is_conditional
           (fetched_orders gw (tm_calls st @ [FetchPositions (Some [symbol])]) symbol)"
    and "base \<equiv> tm_calls st @ [FetchPositions (Some [symbol]), FetchOpenOrders symbol]"
  shows "\<exists>n \<le> length matching.
           set_position_sltp gw st symbol stop_loss_price take_profit_price =
             (True,
              st\<lparr>tm_calls := base
                   @ take n (cancel_calls symbol matching)
                   @ (case stop_loss_price of
                        None \<Rightarrow> []
                      | Some sl \<Rightarrow> [sl_order_call symbol side (number_or_zero (rp_contracts position)) sl])
                   @ (case take_profit_price of
                        None \<Rightarrow> []
                      | Some tp \<Rightarrow> [tp_order_call symbol side (number_or_zero (rp_contracts position)) tp])\<rparr>)
         \<and> (\<forall>i. i + 1 < n \<longrightarrow> \<not> cancellation_raises gw symbol base matching i)
         \<and> (n < length matching \<longrightarrow> 0 < n \<and> cancellation_raises gw symbol base matching (n - 1))"
proof -
  let ?st0 = "gateway_call (FetchPositions (Some [symbol])) st"
  have c0: "tm_calls ?st0 = tm_calls st @ [FetchPositions (Some [symbol])]"
    by (simp add: gateway_call_def)
  have m: "filter is_conditional (fetched_orders gw (tm_calls ?st0) symbol) = matching"
    by (simp add: matching_def c0)
  have b: "tm_calls ?st0 @ [FetchOpenOrders symbol] = base"
    by (simp add: base_def c0)
  obtain n where le: "n \<le> length matching"
    and ce: "cancel_existing gw symbol ?st0 =
           ?st0\<lparr>tm_calls := tm_calls ?st0 @ FetchOpenOrders symbol
                   # take n (cancel_calls symbol matching)\<rparr>"
    and before: "\<forall>i. i + 1 < n \<longrightarrow> \<not> cancellation_raises gw symbol base matching i"
    and last: "n < length matching \<longrightarrow>
                 0 < n \<and> cancellation_raises gw symbol base matching (n - 1)"
    using cancel_existing_calls [of gw ?st0 symbol] unfolding m b by blast
  have "set_position_sltp gw st symbol stop_loss_price take_profit_price =
           (True,
            st\<lparr>tm_calls := base
                 @ take n (cancel_calls symbol matching)
                 @ (case stop_loss_price of
                      None \<Rightarrow> []
                    | Some sl \<Rightarrow> [sl_order_call symbol side (number_or_zero (rp_contracts position)) sl])
                 @ (case take_profit_price of
                      None \<Rightarrow> []
                    | Some tp \<Rightarrow> [tp_order_call symbol side (number_or_zero (rp_contracts position)) tp])\<rparr>)"
    using assms(1,2) ce
    by (cases stop_loss_price; cases take_profit_price)
       (simp_all add: set_position_sltp_def Let_def side_def base_def submit_once_def gateway_call_def
          split: reply.splits)
  then show ?thesis
    using le before last by blast
qed

text \<open>
  Two runs for one long position, a stop-loss at 95 and a take-profit at 110;
  submissions raise in both. In the first the open orders are 1 (\<open>stop_market\<close>), 2
  (\<open>limit\<close>), 3 (\<open>TAKE_PROFIT_MARKET\<close>) and 4 (\<open>stop\<close>), and only the cancellation
  of order 1 succeeds: orders 1 and 3 are tried, order 4 is not, and both new orders are
  still submitted. In the second the open orders are 1, 2 and 3 and every cancellation
  succeeds: orders 1 and 3 are cancelled.
\<close>

theorem set_position_sltp_single_attempts_witness:
  "set_position_sltp partly_cancelling_gateway new_trade_manager ''BTC'' (Some 95) (Some 110)
     = (True,
        new_trade_manager\<lparr>tm_calls :=
          [FetchPositions (Some [''BTC'']), FetchOpenOrders ''BTC'',
           CancelOrder ''1'' ''BTC'', CancelOrder ''3'' ''BTC'',
           sl_order_call ''BTC'' ''long'' 1 95, tp_order_call ''BTC'' ''long'' 1 110]\<rparr>)
   \<and> set_position_sltp (sltp_gateway\<lparr> gw_cancel_order := \<lambda>calls order_id symbol. Returned True \<rparr>)
       new_trade_manager ''BTC'' (Some 95) (Some 110)
     = (True,
        new_trade_manager\<lparr>tm_calls :=
          [FetchPositions (Some [''BTC'']), FetchOpenOrders ''BTC'',
           CancelOrder ''1'' ''BTC'', CancelOrder ''3'' ''BTC'',
           sl_order_call ''BTC'' ''long'' 1 95, tp_order_call ''BTC'' ''long'' 1 110]\<rparr>)"
proof -
  let ?o1 = "example_order ''1'' ''BTC'' ''stop_market''"
  let ?o3 = "example_order ''3'' ''BTC'' ''TAKE_PROFIT_MARKET''"
  let ?o4 = "example_order ''4'' ''BTC'' ''stop''"
  let ?base = "tm_calls new_trade_manager @ [FetchPositions (Some [''BTC'']), FetchOpenOrders ''BTC'']"
  have lo: "lower ''stop_market'' = ''stop_market''" "lower ''limit'' = ''limit''"
     "lower ''TAKE_PROFIT_MARKET'' = ''take_profit_market''" "lower ''long'' = ''long''"
     "lower ''stop'' = ''stop''"
    by (simp_all add: lower_def lower_char_def)
  have h2: "number_or_zero (rp_contracts (example_raw_position ''BTC'' ''long'')) \<noteq> 0"
    and sz: "number_or_zero (rp_contracts (example_raw_position ''BTC'' ''long'')) = 1"
    and sd: "rp_side (example_raw_position ''BTC'' ''long'') = Some ''long''"
    by (simp_all add: example_raw_position_def number_or_zero_def)

  \<comment> \<open>the second cancellation raises: cancelling stops after two of three\<close>
  let ?gwA = "partly_cancelling_gateway"
  have a1: "gw_fetch_positions ?gwA (tm_calls new_trade_manager) (Some [''BTC''])
            = Returned (example_raw_position ''BTC'' ''long'' # [])"
    by (simp add: partly_cancelling_gateway_def)
  have ma: "filter is_conditional
              (fetched_orders ?gwA (tm_calls new_trade_manager @ [FetchPositions (Some [''BTC''])]) ''BTC'')
            = [?o1, ?o3, ?o4]"
    by (simp add: fetched_orders_def partly_cancelling_gateway_def is_conditional_def
        example_order_def lo)
  have ra0: "\<not> cancellation_raises ?gwA ''BTC'' ?base [?o1, ?o3, ?o4] 0"
    and ra1: "cancellation_raises ?gwA ''BTC'' ?base [?o1, ?o3, ?o4] (Suc 0)"
    by (simp_all add: cancellation_raises_def partly_cancelling_gateway_def example_order_def)
  obtain n where le: "n \<le> length [?o1, ?o3, ?o4]"
    and eq: "set_position_sltp ?gwA new_trade_manager ''BTC'' (Some 95) (Some 110) =
           (True,
            new_trade_manager\<lparr>tm_calls := ?base
                 @ take n (cancel_calls ''BTC'' [?o1, ?o3, ?o4])
                 @ [sl_order_call ''BTC'' ''long'' 1 95]
                 @ [tp_order_call ''BTC'' ''long'' 1 110]\<rparr>)"
    and before: "\<forall>i. i + 1 < n \<longrightarrow> \<not> cancellation_raises ?gwA ''BTC'' ?base [?o1, ?o3, ?o4] i"
    and last: "n < length [?o1, ?o3, ?o4]
                 \<longrightarrow> 0 < n \<and> cancellation_raises ?gwA ''BTC'' ?base [?o1, ?o3, ?o4] (n - 1)"
    using set_position_sltp_single_attempts
            [OF a1 h2, of "Some 95" "Some 110", unfolded ma sz sd option.case lo(4)]
    by blast
  have "n \<noteq> 3"
  proof
    assume "n = 3"
    then have "\<not> cancellation_raises ?gwA ''BTC'' ?base [?o1, ?o3, ?o4] (Suc 0)"
      using before by simp
    then show False using ra1 by simp
  qed
  moreover have "n \<noteq> 0"
    using last by auto
  moreover have "n \<noteq> 1"
    using last ra0 by auto
  ultimately have n: "n = 2"
    using le by simp
  have A: "set_position_sltp ?gwA new_trade_manager ''BTC'' (Some 95) (Some 110)
     = (True,
        new_trade_manager\<lparr>tm_calls :=
          [FetchPositions (Some [''BTC'']), FetchOpenOrders ''BTC'',
           CancelOrder ''1'' ''BTC'', CancelOrder ''3'' ''BTC'',
           sl_order_call ''BTC'' ''long'' 1 95, tp_order_call ''BTC'' ''long'' 1 110]\<rparr>)"
    unfolding eq n
    by (simp add: new_trade_manager_def cancel_calls_def example_order_def numeral_2_eq_2)

  \<comment> \<open>no cancellation raises: both conditional orders are cancelled\<close>
  let ?gwB = "sltp_gateway\<lparr> gw_cancel_order := \<lambda>calls order_id symbol. Returned True \<rparr>"
  have b1: "gw_fetch_positions ?gwB (tm_calls new_trade_manager) (Some [''BTC''])
            = Returned (example_raw_position ''BTC'' ''long'' # [])"
    by (simp add: sltp_gateway_def)
  have mb: "filter is_conditional
              (fetched_orders ?gwB (tm_calls new_trade_manager @ [FetchPositions (Some [''BTC''])]) ''BTC'')
            = [?o1, ?o3]"
    by (simp add: fetched_orders_def sltp_gateway_def is_conditional_def example_order_def lo)
  have rb: "\<not> cancellation_raises ?gwB ''BTC'' ?base [?o1, ?o3] i" for i
    by (simp add: cancellation_raises_def)
  obtain k where le': "k \<le> length [?o1, ?o3]"
    and eq': "set_position_sltp ?gwB new_trade_manager ''BTC'' (Some 95) (Some 110) =
           (True,
            new_trade_manager\<lparr>tm_calls := ?base
                 @ take k (cancel_calls ''BTC'' [?o1, ?o3])
                 @ [sl_order_call ''BTC'' ''long'' 1 95]
                 @ [tp_order_call ''BTC'' ''long'' 1 110]\<rparr>)"
    and last': "k < length [?o1, ?o3]
                  \<longrightarrow> 0 < k \<and> cancellation_raises ?gwB ''BTC'' ?base [?o1, ?o3] (k - 1)"
    using set_position_sltp_single_attempts
            [OF b1 h2, of "Some 95" "Some 110", unfolded mb sz sd option.case lo(4)]
    by blast
  have "k \<noteq> 0"
    using last' by auto
  moreover have "k \<noteq> 1"
    using last' rb [of 0] by auto
  ultimately have k: "k = 2"
    using le' by simp
  have B: "set_position_sltp ?gwB new_trade_manager ''BTC'' (Some 95) (Some 110)
     = (True,
        new_trade_manager\<lparr>tm_calls :=
          [FetchPositions (Some [''BTC'']), FetchOpenOrders ''BTC'',
           CancelOrder ''1'' ''BTC'', CancelOrder ''3'' ''BTC'',
           sl_order_call ''BTC'' ''long'' 1 95, tp_order_call ''BTC'' ''long'' 1 110]\<rparr>)"
    unfolding eq' k
    by (simp add: new_trade_manager_def cancel_calls_def example_order_def)
  from A B show ?thesis by (rule conjI)
qed

text \<open>
  C6, as stated, fails. On a gateway where every cancellation and every submission
  raises, \<open>set_position_sltp\<close> with a stop-loss price makes a single submission, of
  type \<open>stop_market\<close>, and returns; the fallback chain of \<open>_place_stop_loss\<close> on the
  same gateway makes four, of types \<open>market\<close>, \<open>STOP_MARKET\<close>, \<open>STOP\<close> and the direct
  call. (The cancellation of order 1 raised, so order 3 was not cancelled either.)
\<close>

theorem set_position_sltp_makes_one_attempt:
  "set_position_sltp sltp_gateway new_trade_manager ''BTC'' (Some 95) None
     = (True,
        new_trade_manager\<lparr>tm_calls :=
          [FetchPositions (Some [''BTC'']), FetchOpenOrders ''BTC'', CancelOrder ''1'' ''BTC'',
           CreateOrder ''BTC'' ''stop_market'' ''sell'' 1 None
             [(''stopPrice'', PNum 95), (''reduceOnly'', PBool True), (''triggerPrice'', PNum 95),
              (''stopLossPrice'', PNum 95), (''type'', PStr ''stop_market'')]]\<rparr>)
   \<and> place_stop_loss sltp_gateway new_trade_manager ''BTC'' (example_position ''BTC'' ''long'') 95
     = (False,
        new_trade_manager\<lparr>tm_calls :=
          [FapiPrivateGetPositionSideDual,
           CreateOrder ''BTC'' ''market'' ''sell'' 1 None
             [(''stopPrice'', PNum 95), (''reduceOnly'', PBool True), (''closePosition'', PStr ''true'')],
           CreateOrder ''BTC'' ''STOP_MARKET'' ''sell'' 1 None
             [(''stopPrice'', PNum 95), (''reduceOnly'', PBool True), (''closePosition'', PStr ''true'')],
           CreateOrder ''BTC'' ''STOP'' ''sell'' 1 None
             [(''stopPrice'', PNum 95), (''reduceOnly'', PBool True), (''closePosition'', PStr ''true'')],
           FapiPrivatePostOrder
             [(''symbol'', PStr ''BTC''), (''side'', PStr ''SELL''), (''type'', PStr ''STOP_MARKET''),
              (''stopPrice'', PStrOfNum 95), (''quantity'', PStrOfNum 1),
              (''reduceOnly'', PStr ''true''), (''timeInForce'', PStr ''GTC'')]]\<rparr>)"
proof -
  have lo: "lower ''stop_market'' = ''stop_market''" "lower ''long'' = ''long''"
    by (simp_all add: lower_def lower_char_def)
  have up: "upper ''sell'' = ''SELL''"
    by (simp add: upper_def upper_char_def)
  have a: "set_position_sltp sltp_gateway new_trade_manager ''BTC'' (Some 95) None
     = (True,
        new_trade_manager\<lparr>tm_calls :=
          [FetchPositions (Some [''BTC'']), FetchOpenOrders ''BTC'', CancelOrder ''1'' ''BTC'',
           CreateOrder ''BTC'' ''stop_market'' ''sell'' 1 None
             [(''stopPrice'', PNum 95), (''reduceOnly'', PBool True), (''triggerPrice'', PNum 95),
              (''stopLossPrice'', PNum 95), (''type'', PStr ''stop_market'')]]\<rparr>)"
    by (simp add: set_position_sltp_def sltp_gateway_def quiet_gateway_def new_trade_manager_def
        example_raw_position_def example_order_def number_or_zero_def lo cancel_existing_def
        gateway_call_def submit_once_def sl_order_call_def Let_def)
  have b: "place_stop_loss sltp_gateway new_trade_manager ''BTC'' (example_position ''BTC'' ''long'') 95
     = (False,
        new_trade_manager\<lparr>tm_calls :=
          [FapiPrivateGetPositionSideDual,
           CreateOrder ''BTC'' ''market'' ''sell'' 1 None
             [(''stopPrice'', PNum 95), (''reduceOnly'', PBool True), (''closePosition'', PStr ''true'')],
           CreateOrder ''BTC'' ''STOP_MARKET'' ''sell'' 1 None
             [(''stopPrice'', PNum 95), (''reduceOnly'', PBool True), (''closePosition'', PStr ''true'')],
           CreateOrder ''BTC'' ''STOP'' ''sell'' 1 None
             [(''stopPrice'', PNum 95), (''reduceOnly'', PBool True), (''closePosition'', PStr ''true'')],
           FapiPrivatePostOrder
             [(''symbol'', PStr ''BTC''), (''side'', PStr ''SELL''), (''type'', PStr ''STOP_MARKET''),
              (''stopPrice'', PStrOfNum 95), (''quantity'', PStrOfNum 1),
              (''reduceOnly'', PStr ''true''), (''timeInForce'', PStr ''GTC'')]]\<rparr>)"
    by (simp add: place_stop_loss_def get_position_mode_def sltp_gateway_def quiet_gateway_def
        new_trade_manager_def example_position_def gateway_call_def conditional_params_def
        direct_params_def binance_symbol_def up Let_def)
  from a b show ?thesis by (rule conjI)
qed

section \<open>Properties of check_strategies\<close>

text \<open>
  Inside \<open>check_strategies\<close> the context never carries \<open>stop_loss_hit\<close>, so a bound
  StopAndReverseStrategy never fires there.
\<close>

lemma stop_and_reverse_needs_stop_loss_hit:
  "\<not> ctx_stop_loss_hit c \<Longrightarrow> \<not> stop_and_reverse_should_execute s c"
  by (simp add: stop_and_reverse_should_execute_def split: option.splits)

lemma rising_gateway_open_positions:
  "get_open_positions rising_gateway st =
     ([example_position ''BTC'' ''long''],
      st\<lparr>tm_calls := tm_calls st @ [FetchPositions None, FetchOpenOrders ''BTC'']\<rparr>)"
  by (simp add: get_open_positions_def rising_gateway_def quiet_gateway_def example_raw_position_def
      example_position_def number_or_zero_def)

text \<open>
  C2, evaluated where the code departs from it. The routing of \<open>check_strategies\<close>
  makes no executor call for a \<open>place_order_with_tp\<close> action, nor for a
  \<open>partial_close\<close> action: the trade manager is left as it was. And end to end: with a
  trailing-stop strategy bound to a long position entered at 100 and the ticker at 106,
  the strategy fires with a \<open>partial_close\<close> action for the 5 percent level, and the
  calls of the whole \<open>check_strategies\<close> run are the position snapshot, the clock and
  the ticker; no order is submitted.
\<close>

theorem check_strategies_drops_actions:
  "route_action gw st position (PlaceOrderWithTp symbol side order_type take_profit) = st
   \<and> route_action gw st position (PartialClose symbol amount profit_pct) = st
   \<and> tm_calls (snd (check_strategies rising_gateway bound_trailing_manager))
     = [FetchPositions None, FetchOpenOrders ''BTC'', TimeTime, FetchTicker ''BTC'', TimeTime]"
proof -
  have g: "get_position rising_gateway bound_trailing_manager ''BTC'' =
        (Some (example_position ''BTC'' ''long''),
         bound_trailing_manager\<lparr>tm_calls := [FetchPositions None, FetchOpenOrders ''BTC'']\<rparr>)"
    by (simp add: get_position_def rising_gateway_open_positions)
       (simp add: bound_trailing_manager_def new_trade_manager_def example_position_def)
  have run: "tm_calls (snd (check_strategies rising_gateway bound_trailing_manager))
     = [FetchPositions None, FetchOpenOrders ''BTC'', TimeTime, FetchTicker ''BTC'', TimeTime]"
    apply (simp add: check_strategies_def)
    apply (simp add: bound_trailing_manager_def new_trade_manager_def check_symbol_def)
    apply (simp add: g[unfolded bound_trailing_manager_def new_trade_manager_def, simplified])
    apply (simp add: gateway_call_def strategy_should_execute_def trailing_should_execute_def
        rising_gateway_def quiet_gateway_def update_position_tracking_def calculate_trailing_stop_def
        example_position_def trailing_stop_crossed_def check_partial_profits_def profit_percentage_def
        strategy_execute_def trailing_execute_def route_action_def three_strike_should_execute_def
        default_three_strike_def Let_def)
    done
  show ?thesis
    using run by (simp add: route_action_def)
qed

end
